theory Spec2Isabelle
  imports Main "HOL-Library.Word"
begin

unbundle bit_operations_syntax

section \<open>Machine integers, bytes and errors\<close>

type_synonym u8 = "8 word"
type_synonym u16 = "16 word"
type_synonym u32 = "32 word"
type_synonym u64 = "64 word"

text \<open>
  Every \<^verbatim>\<open>throw std::runtime_error\<close> of \<^verbatim>\<open>portable_executable.cpp\<close> is one
  constructor, named after the error kind of its message:
  "Not a valid PE file" is \<open>NotPE\<close>, "Invalid PE signature" is \<open>BadNtSignature\<close>,
  "Not an x64 binary" is \<open>UnsupportedMachine\<close>, "Not a PE32+ binary" is
  \<open>UnsupportedOptionalMagic\<close>, "Buffer overflow reading structure" is \<open>BufferOverflow\<close>,
  "RVA not found in any section" is \<open>RvaUnmapped\<close> and "Section ... not found" is
  \<open>SectionNotFound\<close>.

  \<open>ReadPastEnd\<close> is not an exception of the source. It marks the places where the source
  forms an iterator beyond \<^verbatim>\<open>buffer_.end()\<close> without any check (undefined behaviour in
  C++): the model stops there with this value instead of inventing bytes.
\<close>

datatype error =
    NotPE
  | BadNtSignature
  | UnsupportedMachine
  | UnsupportedOptionalMagic
  | BufferOverflow
  | RvaUnmapped
  | SectionNotFound
  | ReadPastEnd

text \<open>
  \<^verbatim>\<open>size_t\<close> and the file offsets are natural numbers: every offset the source computes
  is a sum of 32-bit quantities and small multiples of indices, far below \<open>2^64\<close>.
  Arithmetic the source performs on \<^verbatim>\<open>uint32_t\<close> or \<^verbatim>\<open>uint64_t\<close> operands stays on
  words, so that it wraps as in the source.
\<close>

subsection \<open>Little-endian scalars\<close>

fun le_nat :: "u8 list \<Rightarrow> nat" where
  "le_nat [] = 0"
| "le_nat (b # bs) = unat b + 256 * le_nat bs"

definition bytes_at :: "u8 list \<Rightarrow> nat \<Rightarrow> nat \<Rightarrow> u8 list" where
  "bytes_at data off n = take n (drop off data)"

definition u8_at :: "u8 list \<Rightarrow> nat \<Rightarrow> u8" where
  "u8_at data off = word_of_nat (le_nat (bytes_at data off 1))"

definition u16_at :: "u8 list \<Rightarrow> nat \<Rightarrow> u16" where
  "u16_at data off = word_of_nat (le_nat (bytes_at data off 2))"

definition u32_at :: "u8 list \<Rightarrow> nat \<Rightarrow> u32" where
  "u32_at data off = word_of_nat (le_nat (bytes_at data off 4))"

definition u64_at :: "u8 list \<Rightarrow> nat \<Rightarrow> u64" where
  "u64_at data off = word_of_nat (le_nat (bytes_at data off 8))"

subsection \<open>\<^verbatim>\<open>Parser::read_struct\<close>\<close>

text \<open>
  \<^verbatim>\<open>read_struct<T>(data, offset)\<close> throws when \<^verbatim>\<open>offset + sizeof(T) > data.size()\<close>
  and copies \<^verbatim>\<open>sizeof(T)\<close> bytes otherwise. The size of \<open>T\<close> and the decoding of the
  copied bytes are the two arguments \<open>sz\<close> and \<open>dec\<close>; \<open>dec\<close> receives the buffer and
  the offset and only looks at the \<open>sz\<close> bytes from \<open>off\<close> on.
\<close>

definition read_struct :: "nat \<Rightarrow> (u8 list \<Rightarrow> nat \<Rightarrow> 'a) \<Rightarrow> u8 list \<Rightarrow> nat \<Rightarrow> error + 'a" where
  "read_struct sz dec data off =
     (if off + sz > length data then Inl BufferOverflow else Inr (dec data off))"

definition read_u16 :: "u8 list \<Rightarrow> nat \<Rightarrow> error + u16" where
  "read_u16 = read_struct 2 u16_at"

definition read_u32 :: "u8 list \<Rightarrow> nat \<Rightarrow> error + u32" where
  "read_u32 = read_struct 4 u32_at"

definition read_u64 :: "u8 list \<Rightarrow> nat \<Rightarrow> error + u64" where
  "read_u64 = read_struct 8 u64_at"

section \<open>Headers\<close>

text \<open>
  Modelled from the spec: the structure declarations live in
  \<^verbatim>\<open>platform/portable_executable.hpp\<close>, which is not part of the sources at hand. The
  records of this theory hold the fields that \<^verbatim>\<open>portable_executable.cpp\<close> reads or
  fills. The on-disk structures are decoded at the offsets and with the sizes of the
  documented PE32+ layout (little-endian, no padding), which the spec prescribes for
  \<^verbatim>\<open>read_struct\<close>; the result structures have one field for each argument of the
  \<^verbatim>\<open>emplace_back\<close> that fills them, with the type of that argument. A field name that
  occurs in several structures carries a prefix here.
\<close>

record DosHeader =
  e_magic :: u16
  e_lfanew :: u32

definition sizeof_DosHeader :: nat where "sizeof_DosHeader = 64"

definition dec_DosHeader :: "u8 list \<Rightarrow> nat \<Rightarrow> DosHeader" where
  "dec_DosHeader d off = \<lparr> e_magic = u16_at d off, e_lfanew = u32_at d (off + 60) \<rparr>"

record FileHeader =
  machine :: u16
  number_of_sections :: u16
  size_of_optional_header :: u16

definition sizeof_FileHeader :: nat where "sizeof_FileHeader = 20"

definition dec_FileHeader :: "u8 list \<Rightarrow> nat \<Rightarrow> FileHeader" where
  "dec_FileHeader d off =
     \<lparr> machine = u16_at d off,
       number_of_sections = u16_at d (off + 2),
       size_of_optional_header = u16_at d (off + 16) \<rparr>"

record DataDirectory =
  dir_virtual_address :: u32
  dir_size :: u32

definition dec_DataDirectory :: "u8 list \<Rightarrow> nat \<Rightarrow> DataDirectory" where
  "dec_DataDirectory d off =
     \<lparr> dir_virtual_address = u32_at d off, dir_size = u32_at d (off + 4) \<rparr>"

record OptionalHeader =
  magic :: u16
  address_of_entry_point :: u32
  image_base :: u64
  opt_data_directories :: "DataDirectory list"

definition sizeof_OptionalHeader :: nat where "sizeof_OptionalHeader = 240"

definition dec_OptionalHeader :: "u8 list \<Rightarrow> nat \<Rightarrow> OptionalHeader" where
  "dec_OptionalHeader d off =
     \<lparr> magic = u16_at d off,
       address_of_entry_point = u32_at d (off + 16),
       image_base = u64_at d (off + 24),
       opt_data_directories = map (\<lambda>k. dec_DataDirectory d (off + 112 + 8 * k)) [0..<16] \<rparr>"

record SectionHeader =
  name :: "u8 list"
  virtual_size :: u32
  virtual_address :: u32
  size_of_raw_data :: u32
  pointer_to_raw_data :: u32
  characteristics :: u32

definition sizeof_SectionHeader :: nat where "sizeof_SectionHeader = 40"

definition dec_SectionHeader :: "u8 list \<Rightarrow> nat \<Rightarrow> SectionHeader" where
  "dec_SectionHeader d off =
     \<lparr> name = bytes_at d off 8,
       virtual_size = u32_at d (off + 8),
       virtual_address = u32_at d (off + 12),
       size_of_raw_data = u32_at d (off + 16),
       pointer_to_raw_data = u32_at d (off + 20),
       characteristics = u32_at d (off + 36) \<rparr>"

record PEInfo =
  dos_header :: DosHeader
  file_header :: FileHeader
  optional_header :: OptionalHeader
  section_headers :: "SectionHeader list"
  data_directories :: "DataDirectory list"

text \<open>
  The parser object: the owned buffer, the headers cached by the constructor and the two
  overrides. The overrides are \<open>0\<close> on a new parser (zero means "no override").
\<close>

record Parser =
  buffer :: "u8 list"
  pe_info :: PEInfo
  override_base_address_field :: u64
  override_entry_point_field :: u64

section \<open>Address mapper\<close>

definition is_rva_in_section :: "u32 \<Rightarrow> SectionHeader \<Rightarrow> bool" where
  "is_rva_in_section rva section \<longleftrightarrow>
     rva \<ge> virtual_address section \<and>
     rva < virtual_address section + virtual_size section"

text \<open>
  \<^verbatim>\<open>std::ranges::find_if\<close> is \<open>find\<close>: the first section header satisfying the
  predicate. The result is computed on \<^verbatim>\<open>uint32_t\<close> operands and widened to
  \<^verbatim>\<open>size_t\<close> afterwards.
\<close>

definition rva_to_offset :: "Parser \<Rightarrow> u32 \<Rightarrow> error + nat" where
  "rva_to_offset p rva =
     (case find (is_rva_in_section rva) (section_headers (pe_info p)) of
        None \<Rightarrow> Inl RvaUnmapped
      | Some it \<Rightarrow> Inr (unat (rva - virtual_address it + pointer_to_raw_data it)))"


section \<open>Counted loops\<close>

text \<open>
  The counted loops of the source (\<^verbatim>\<open>for (i : std::views::iota(0u, n))\<close>, and the
  range-based loops over the section headers) push one element per index, in order, and
  leave the function at the first exception.
\<close>

fun collect :: "('b \<Rightarrow> error + 'a) \<Rightarrow> 'b list \<Rightarrow> error + 'a list" where
  "collect f [] = Inr []"
| "collect f (i # is) =
     (case f i of
        Inl e \<Rightarrow> Inl e
      | Inr x \<Rightarrow> (case collect f is of Inl e \<Rightarrow> Inl e | Inr xs \<Rightarrow> Inr (x # xs)))"

section \<open>Header parser\<close>

definition read_DosHeader :: "u8 list \<Rightarrow> nat \<Rightarrow> error + DosHeader" where
  "read_DosHeader = read_struct sizeof_DosHeader dec_DosHeader"

definition read_FileHeader :: "u8 list \<Rightarrow> nat \<Rightarrow> error + FileHeader" where
  "read_FileHeader = read_struct sizeof_FileHeader dec_FileHeader"

definition read_OptionalHeader :: "u8 list \<Rightarrow> nat \<Rightarrow> error + OptionalHeader" where
  "read_OptionalHeader = read_struct sizeof_OptionalHeader dec_OptionalHeader"

definition read_SectionHeader :: "u8 list \<Rightarrow> nat \<Rightarrow> error + SectionHeader" where
  "read_SectionHeader = read_struct sizeof_SectionHeader dec_SectionHeader"

definition parse :: "u8 list \<Rightarrow> error + PEInfo" where
  "parse buf =
     (case read_DosHeader buf 0 of
        Inl e \<Rightarrow> Inl e
      | Inr dos \<Rightarrow>
          if e_magic dos \<noteq> 0x5A4D then Inl NotPE
          else
            let pe_offset = unat (e_lfanew dos) in
            (case read_u32 buf pe_offset of
               Inl e \<Rightarrow> Inl e
             | Inr signature \<Rightarrow>
                 if signature \<noteq> 0x00004550 then Inl BadNtSignature
                 else
                   (case read_FileHeader buf (pe_offset + 4) of
                      Inl e \<Rightarrow> Inl e
                    | Inr fh \<Rightarrow>
                        if machine fh \<noteq> 0x8664 then Inl UnsupportedMachine
                        else
                          (case read_OptionalHeader buf (pe_offset + 4 + sizeof_FileHeader) of
                             Inl e \<Rightarrow> Inl e
                           | Inr oh \<Rightarrow>
                               if magic oh \<noteq> 0x20b then Inl UnsupportedOptionalMagic
                               else
                                 let data_dirs = opt_data_directories oh;
                                     section_offset = pe_offset + 4 + sizeof_FileHeader +
                                                      unat (size_of_optional_header fh)
                                 in
                                 (case collect (\<lambda>i. read_SectionHeader buf
                                                   (section_offset + i * sizeof_SectionHeader))
                                         [0..<unat (number_of_sections fh)] of
                                    Inl e \<Rightarrow> Inl e
                                  | Inr sections \<Rightarrow>
                                      Inr \<lparr> dos_header = dos, file_header = fh,
                                            optional_header = oh, section_headers = sections,
                                            data_directories = data_dirs \<rparr>)))))"

text \<open>
  The constructor, without the file access: the buffer is kept, the headers are parsed
  once, and both overrides start at zero.
\<close>

definition new_Parser :: "u8 list \<Rightarrow> error + Parser" where
  "new_Parser buf =
     (case parse buf of
        Inl e \<Rightarrow> Inl e
      | Inr info \<Rightarrow> Inr \<lparr> buffer = buf, pe_info = info,
                          override_base_address_field = 0,
                          override_entry_point_field = 0 \<rparr>)"

section \<open>Overrides and derived addresses\<close>

definition get_image_base :: "Parser \<Rightarrow> u64" where
  "get_image_base p =
     (if override_base_address_field p \<noteq> 0 then override_base_address_field p
      else image_base (optional_header (pe_info p)))"

definition get_entry_point :: "Parser \<Rightarrow> u64" where
  "get_entry_point p =
     (if override_entry_point_field p \<noteq> 0 then get_image_base p + override_entry_point_field p
      else image_base (optional_header (pe_info p)) +
           ucast (address_of_entry_point (optional_header (pe_info p))))"

definition override_base_address :: "u64 \<Rightarrow> Parser \<Rightarrow> Parser" where
  "override_base_address address p = p\<lparr> override_base_address_field := address \<rparr>"

definition override_entry_point :: "u64 \<Rightarrow> Parser \<Rightarrow> Parser" where
  "override_entry_point address p = p\<lparr> override_entry_point_field := address \<rparr>"


section \<open>Unchecked copies and strings\<close>

text \<open>
  \<^verbatim>\<open>std::vector<uint8_t>(buffer_.begin() + first, buffer_.begin() + last)\<close>: the source
  checks nothing. An empty range (\<open>first = last\<close>, a region of size 0) copies no byte,
  wherever it lies, and yields the empty vector. Inside the buffer the copy yields the
  bytes of \<open>[first, last)\<close>; a range that is not empty and ends beyond
  \<^verbatim>\<open>buffer_.end()\<close> is read all the same, which the model records as \<open>ReadPastEnd\<close>.
  Every caller passes \<open>last = first + size\<close>.
\<close>

definition copy_range :: "u8 list \<Rightarrow> nat \<Rightarrow> nat \<Rightarrow> error + u8 list" where
  "copy_range buf first_off last_off =
     (if first_off = last_off then Inr []
      else if last_off \<le> length buf then Inr (take (last_off - first_off) (drop first_off buf))
      else Inl ReadPastEnd)"

text \<open>A \<^verbatim>\<open>std::string\<close> is a list of 8-bit characters.\<close>

definition string_of :: "u8 list \<Rightarrow> string" where
  "string_of bs = map (\<lambda>b. char_of (unat b)) bs"

text \<open>
  \<^verbatim>\<open>std::string { start, std::find(start, buffer_.end(), 0) }\<close> with
  \<^verbatim>\<open>start = buffer_.begin() + off\<close>: the bytes from \<open>off\<close> up to the first zero byte,
  or up to the end of the buffer when there is none.
\<close>

definition c_string_at :: "u8 list \<Rightarrow> nat \<Rightarrow> error + string" where
  "c_string_at buf off =
     (if off \<le> length buf then Inr (string_of (takeWhile (\<lambda>b. b \<noteq> 0) (drop off buf)))
      else Inl ReadPastEnd)"

text \<open>
  The recurring pattern \<^verbatim>\<open>buffer_.begin() + rva_to_offset(rva)\<close> followed by the search
  for the terminator.
\<close>

definition string_at_rva :: "Parser \<Rightarrow> u32 \<Rightarrow> error + string" where
  "string_at_rva p rva =
     (case rva_to_offset p rva of
        Inl e \<Rightarrow> Inl e
      | Inr name_start \<Rightarrow> c_string_at (buffer p) name_start)"

section \<open>Section views\<close>

text \<open>
  Modelled from the spec: the constant \<^verbatim>\<open>scn_mem_execute\<close> of the header is the
  characteristic bit \<open>0x20000000\<close> (\<^verbatim>\<open>IMAGE_SCN_MEM_EXECUTE\<close>).
\<close>

definition scn_mem_execute :: u32 where
  "scn_mem_execute = 0x20000000"

record SectionData =
  sd_name :: string
  sd_data :: "u8 list"
  sd_virtual_address :: u64
  sd_executable :: bool

definition get_section_data :: "Parser \<Rightarrow> string \<Rightarrow> error + u8 list" where
  "get_section_data p section_name =
     (case find (\<lambda>s. take (length section_name) (string_of (name s)) = section_name)
             (section_headers (pe_info p)) of
        None \<Rightarrow> Inl SectionNotFound
      | Some section \<Rightarrow>
          copy_range (buffer p) (unat (pointer_to_raw_data section))
            (unat (pointer_to_raw_data section) + unat (size_of_raw_data section)))"

definition get_text_section_data :: "Parser \<Rightarrow> error + u8 list" where
  "get_text_section_data p = get_section_data p ''.text''"

definition section_view :: "Parser \<Rightarrow> bool \<Rightarrow> SectionHeader \<Rightarrow> error + SectionData" where
  "section_view p exec section =
     (let start = unat (pointer_to_raw_data section) in
      case copy_range (buffer p) start (start + unat (size_of_raw_data section)) of
        Inl e \<Rightarrow> Inl e
      | Inr bytes \<Rightarrow>
          Inr \<lparr> sd_name = takeWhile (\<lambda>c. c \<noteq> CHR 0x00) (string_of (name section)),
                sd_data = bytes,
                sd_virtual_address = get_image_base p + ucast (virtual_address section),
                sd_executable = exec \<rparr>)"

definition get_executable_sections_data :: "Parser \<Rightarrow> error + SectionData list" where
  "get_executable_sections_data p =
     collect (section_view p True)
       (filter (\<lambda>s. characteristics s AND scn_mem_execute \<noteq> 0) (section_headers (pe_info p)))"

definition get_all_sections_data :: "Parser \<Rightarrow> error + SectionData list" where
  "get_all_sections_data p =
     collect (\<lambda>s. section_view p (characteristics s AND scn_mem_execute \<noteq> 0) s)
       (section_headers (pe_info p))"

section \<open>Debug directory\<close>

record DebugDirectory =
  type_field :: u32
  size_of_data :: u32
  address_of_raw_data :: u32
  dbg_pointer_to_raw_data :: u32

definition sizeof_DebugDirectory :: nat where "sizeof_DebugDirectory = 28"

definition dec_DebugDirectory :: "u8 list \<Rightarrow> nat \<Rightarrow> DebugDirectory" where
  "dec_DebugDirectory d off =
     \<lparr> type_field = u32_at d (off + 12),
       size_of_data = u32_at d (off + 16),
       address_of_raw_data = u32_at d (off + 20),
       dbg_pointer_to_raw_data = u32_at d (off + 24) \<rparr>"

definition read_DebugDirectory :: "u8 list \<Rightarrow> nat \<Rightarrow> error + DebugDirectory" where
  "read_DebugDirectory = read_struct sizeof_DebugDirectory dec_DebugDirectory"

definition debug_entry :: "Parser \<Rightarrow> nat \<Rightarrow> nat \<Rightarrow> error + DebugDirectory \<times> u8 list option" where
  "debug_entry p offset i =
     (case read_DebugDirectory (buffer p) (offset + i * sizeof_DebugDirectory) of
        Inl e \<Rightarrow> Inl e
      | Inr entry \<Rightarrow>
          if dbg_pointer_to_raw_data entry \<noteq> 0 \<and> size_of_data entry \<noteq> 0 then
            (let start = unat (dbg_pointer_to_raw_data entry) in
             case copy_range (buffer p) start (start + unat (size_of_data entry)) of
               Inl e \<Rightarrow> Inl e
             | Inr bytes \<Rightarrow> Inr (entry, Some bytes))
          else Inr (entry, None))"

definition get_debug_directory :: "Parser \<Rightarrow> error + (DebugDirectory \<times> u8 list option) list" where
  "get_debug_directory p =
     (let debug_dir = data_directories (pe_info p) ! 6 in
      if dir_virtual_address debug_dir = 0 then Inr []
      else
        case rva_to_offset p (dir_virtual_address debug_dir) of
          Inl e \<Rightarrow> Inl e
        | Inr offset \<Rightarrow>
            collect (debug_entry p offset)
              [0..<unat (dir_size debug_dir div word_of_nat sizeof_DebugDirectory)])"


section \<open>Walks without a counted bound\<close>

text \<open>
  The loops whose exit depends on the bytes they read are \<^theory_text>\<open>partial_function\<close>s in
  the option monad: \<open>None\<close> is a call that never returns, \<open>Some (Inl e)\<close> a call left by
  the exception \<open>e\<close>, and \<open>Some (Inr v)\<close> a call returning \<open>v\<close>. The vectors that the
  loops fill by \<^verbatim>\<open>emplace_back\<close> are the accumulators.
\<close>

subsection \<open>Import directory\<close>

record ImportDirectory =
  import_lookup_table_rva :: u32
  name_rva :: u32
  import_address_table_rva :: u32

definition sizeof_ImportDirectory :: nat where "sizeof_ImportDirectory = 20"

definition dec_ImportDirectory :: "u8 list \<Rightarrow> nat \<Rightarrow> ImportDirectory" where
  "dec_ImportDirectory d off =
     \<lparr> import_lookup_table_rva = u32_at d off,
       name_rva = u32_at d (off + 12),
       import_address_table_rva = u32_at d (off + 16) \<rparr>"

definition read_ImportDirectory :: "u8 list \<Rightarrow> nat \<Rightarrow> error + ImportDirectory" where
  "read_ImportDirectory = read_struct sizeof_ImportDirectory dec_ImportDirectory"

definition sizeof_ImportLookupEntry64 :: nat where "sizeof_ImportLookupEntry64 = 8"

record ImportEntry =
  ie_ordinal :: u32
  ie_name :: "string option"
  ie_thunk_rva :: u64

text \<open>
  The body of the \<^verbatim>\<open>while (true)\<close> loop for one non-zero slot \<open>data\<close> at position
  \<open>index\<close>. \<^verbatim>\<open>iat_base_rva + index * sizeof(uint64_t)\<close> is computed on \<^verbatim>\<open>size_t\<close>
  and stored in a \<^verbatim>\<open>uint64_t\<close>.
\<close>

definition import_entry :: "Parser \<Rightarrow> u32 \<Rightarrow> nat \<Rightarrow> u64 \<Rightarrow> error + ImportEntry" where
  "import_entry p iat_base_rva index data =
     (let thunk_rva = ucast iat_base_rva + word_of_nat (index * 8) in
      if data AND push_bit 63 1 \<noteq> 0 then
        Inr \<lparr> ie_ordinal = ucast (data AND 0xFFFF), ie_name = None, ie_thunk_rva = thunk_rva \<rparr>
      else
        case rva_to_offset p (ucast (data AND 0x7FFFFFFF)) of
          Inl e \<Rightarrow> Inl e
        | Inr off \<Rightarrow>
            (case c_string_at (buffer p) (off + 2) of
               Inl e \<Rightarrow> Inl e
             | Inr nm \<Rightarrow>
                 Inr \<lparr> ie_ordinal = 0, ie_name = Some nm, ie_thunk_rva = thunk_rva \<rparr>))"

partial_function (option) import_lookup_walk ::
  "Parser \<Rightarrow> u32 \<Rightarrow> nat \<Rightarrow> nat \<Rightarrow> ImportEntry list \<Rightarrow> (error + ImportEntry list) option" where
  "import_lookup_walk p iat_base_rva lookup_offset index entries =
     (case read_u64 (buffer p) lookup_offset of
        Inl e \<Rightarrow> Some (Inl e)
      | Inr data \<Rightarrow>
          if data = 0 then Some (Inr entries)
          else
            (case import_entry p iat_base_rva index data of
               Inl e \<Rightarrow> Some (Inl e)
             | Inr entry \<Rightarrow>
                 import_lookup_walk p iat_base_rva
                   (lookup_offset + sizeof_ImportLookupEntry64) (Suc index) (entries @ [entry])))"

partial_function (option) import_descriptor_walk ::
  "Parser \<Rightarrow> nat \<Rightarrow> (string \<times> ImportEntry list) list \<Rightarrow>
   (error + (string \<times> ImportEntry list) list) option" where
  "import_descriptor_walk p current_offset result =
     (if current_offset + sizeof_ImportDirectory \<le> length (buffer p) then
        (case read_ImportDirectory (buffer p) current_offset of
           Inl e \<Rightarrow> Some (Inl e)
         | Inr import \<Rightarrow>
             if import_lookup_table_rva import = 0 then Some (Inr result)
             else
               (case string_at_rva p (name_rva import) of
                  Inl e \<Rightarrow> Some (Inl e)
                | Inr dll_name \<Rightarrow>
                    (case rva_to_offset p (import_lookup_table_rva import) of
                       Inl e \<Rightarrow> Some (Inl e)
                     | Inr lookup_offset \<Rightarrow>
                         Option.bind
                           (import_lookup_walk p (import_address_table_rva import)
                              lookup_offset 0 [])
                           (\<lambda>r. case r of
                               Inl e \<Rightarrow> Some (Inl e)
                             | Inr entries \<Rightarrow>
                                 import_descriptor_walk p
                                   (current_offset + sizeof_ImportDirectory)
                                   (result @ [(dll_name, entries)])))))
      else Some (Inr result))"

definition get_import_directory ::
  "Parser \<Rightarrow> (error + (string \<times> ImportEntry list) list) option" where
  "get_import_directory p =
     (let import_dir = data_directories (pe_info p) ! 1 in
      if dir_virtual_address import_dir = 0 then Some (Inr [])
      else
        case rva_to_offset p (dir_virtual_address import_dir) of
          Inl e \<Rightarrow> Some (Inl e)
        | Inr offset \<Rightarrow> import_descriptor_walk p offset [])"

subsection \<open>Base relocations\<close>

record BaseRelocationBlock =
  block_virtual_address :: u32
  size_of_block :: u32

definition sizeof_BaseRelocationBlock :: nat where "sizeof_BaseRelocationBlock = 8"

definition dec_BaseRelocationBlock :: "u8 list \<Rightarrow> nat \<Rightarrow> BaseRelocationBlock" where
  "dec_BaseRelocationBlock d off =
     \<lparr> block_virtual_address = u32_at d off, size_of_block = u32_at d (off + 4) \<rparr>"

definition read_BaseRelocationBlock :: "u8 list \<Rightarrow> nat \<Rightarrow> error + BaseRelocationBlock" where
  "read_BaseRelocationBlock = read_struct sizeof_BaseRelocationBlock dec_BaseRelocationBlock"

definition sizeof_BaseRelocationEntry :: nat where "sizeof_BaseRelocationEntry = 2"

record RelocationEntry =
  reloc_type :: u16
  reloc_offset :: u16

definition relocation_entry :: "u8 list \<Rightarrow> nat \<Rightarrow> nat \<Rightarrow> error + RelocationEntry" where
  "relocation_entry buf current_offset i =
     (case read_u16 buf (current_offset + 8 + i * sizeof_BaseRelocationEntry) of
        Inl e \<Rightarrow> Inl e
      | Inr w \<Rightarrow> Inr \<lparr> reloc_type = drop_bit 12 w AND 0xF, reloc_offset = w AND 0xFFF \<rparr>)"

partial_function (option) relocation_walk ::
  "u8 list \<Rightarrow> nat \<Rightarrow> nat \<Rightarrow> (u32 \<times> RelocationEntry list) list \<Rightarrow>
   (error + (u32 \<times> RelocationEntry list) list) option" where
  "relocation_walk buf end_offset current_offset result =
     (if current_offset < end_offset then
        (case read_BaseRelocationBlock buf current_offset of
           Inl e \<Rightarrow> Some (Inl e)
         | Inr block \<Rightarrow>
             let entry_count = (size_of_block block - 8) div 2 in
             (case collect (relocation_entry buf current_offset) [0..<unat entry_count] of
                Inl e \<Rightarrow> Some (Inl e)
              | Inr entries \<Rightarrow>
                  relocation_walk buf end_offset
                    (current_offset + unat (size_of_block block))
                    (result @ [(block_virtual_address block, entries)])))
      else Some (Inr result))"

definition get_relocation_directory ::
  "Parser \<Rightarrow> (error + (u32 \<times> RelocationEntry list) list) option" where
  "get_relocation_directory p =
     (let reloc_dir = data_directories (pe_info p) ! 5 in
      if dir_virtual_address reloc_dir = 0 then Some (Inr [])
      else
        case rva_to_offset p (dir_virtual_address reloc_dir) of
          Inl e \<Rightarrow> Some (Inl e)
        | Inr offset \<Rightarrow>
            relocation_walk (buffer p) (offset + unat (dir_size reloc_dir)) offset [])"


subsection \<open>Exception directory and chained unwind info\<close>

record RuntimeFunction =
  begin_address :: u32
  end_address :: u32
  unwind_info_address :: u32

definition sizeof_RuntimeFunction :: nat where "sizeof_RuntimeFunction = 12"

definition dec_RuntimeFunction :: "u8 list \<Rightarrow> nat \<Rightarrow> RuntimeFunction" where
  "dec_RuntimeFunction d off =
     \<lparr> begin_address = u32_at d off,
       end_address = u32_at d (off + 4),
       unwind_info_address = u32_at d (off + 8) \<rparr>"

definition read_RuntimeFunction :: "u8 list \<Rightarrow> nat \<Rightarrow> error + RuntimeFunction" where
  "read_RuntimeFunction = read_struct sizeof_RuntimeFunction dec_RuntimeFunction"

text \<open>
  Modelled from the spec: \<^verbatim>\<open>UnwindInfo\<close> in the x64 layout. The first byte holds the
  version in its low three bits and the flags in its high five bits; then come the size
  of the prolog, the count of unwind codes, the frame register byte and the first
  two-byte unwind code: \<^verbatim>\<open>offsetof(UnwindInfo, unwind_code)\<close> is \<open>4\<close>,
  \<^verbatim>\<open>sizeof(UnwindCode)\<close> is \<open>2\<close> and \<^verbatim>\<open>sizeof(UnwindInfo)\<close> is \<open>6\<close>.
\<close>

record UnwindInfo =
  version :: u8
  flags :: u8
  size_of_prolog :: u8
  count_of_codes :: u8
  frame_register_offset :: u8

definition sizeof_UnwindInfo :: nat where "sizeof_UnwindInfo = 6"
definition offsetof_unwind_code :: nat where "offsetof_unwind_code = 4"
definition sizeof_UnwindCode :: nat where "sizeof_UnwindCode = 2"

definition dec_UnwindInfo :: "u8 list \<Rightarrow> nat \<Rightarrow> UnwindInfo" where
  "dec_UnwindInfo d off =
     \<lparr> version = u8_at d off AND 7,
       flags = drop_bit 3 (u8_at d off),
       size_of_prolog = u8_at d (off + 1),
       count_of_codes = u8_at d (off + 2),
       frame_register_offset = u8_at d (off + 3) \<rparr>"

definition read_UnwindInfo :: "u8 list \<Rightarrow> nat \<Rightarrow> error + UnwindInfo" where
  "read_UnwindInfo = read_struct sizeof_UnwindInfo dec_UnwindInfo"

text \<open>
  Every exception inside the \<^verbatim>\<open>try\<close> block, from \<^verbatim>\<open>rva_to_offset\<close> or from
  \<^verbatim>\<open>read_struct\<close>, ends in \<^verbatim>\<open>catch (...)\<close>, which returns \<open>func\<close>. The recursive
  call has no bound of its own.
\<close>

partial_function (option) resolve_chained_function ::
  "Parser \<Rightarrow> nat \<Rightarrow> RuntimeFunction \<Rightarrow> RuntimeFunction option" where
  "resolve_chained_function p base_offset func =
     (if unwind_info_address func = 0 then Some func
      else
        case rva_to_offset p (unwind_info_address func) of
          Inl e \<Rightarrow> Some func
        | Inr unwind_offset \<Rightarrow>
            (case read_UnwindInfo (buffer p) unwind_offset of
               Inl e \<Rightarrow> Some func
             | Inr unwind_info \<Rightarrow>
                 if flags unwind_info AND 0x4 \<noteq> 0 then
                   (let index = (ucast (count_of_codes unwind_info) :: u32);
                        index = (if index AND 1 \<noteq> 0 then index + 1 else index);
                        chain_offset = unwind_offset + offsetof_unwind_code +
                                       unat index * sizeof_UnwindCode
                    in case read_RuntimeFunction (buffer p) chain_offset of
                         Inl e \<Rightarrow> Some func
                       | Inr chain_func \<Rightarrow> resolve_chained_function p base_offset chain_func)
                 else Some func))"

text \<open>
  One link of a chain: the \<^verbatim>\<open>RuntimeFunction\<close> that \<^verbatim>\<open>resolve_chained_function\<close>
  passes to its recursive call, or \<open>None\<close> when the call returns \<open>func\<close> itself (no
  unwind info, flag \<^verbatim>\<open>UNW_FLAG_CHAININFO\<close> clear, or an exception caught).
\<close>

definition chain_link :: "Parser \<Rightarrow> RuntimeFunction \<Rightarrow> RuntimeFunction option" where
  "chain_link p func =
     (if unwind_info_address func = 0 then None
      else
        case rva_to_offset p (unwind_info_address func) of
          Inl e \<Rightarrow> None
        | Inr unwind_offset \<Rightarrow>
            (case read_UnwindInfo (buffer p) unwind_offset of
               Inl e \<Rightarrow> None
             | Inr unwind_info \<Rightarrow>
                 if flags unwind_info AND 0x4 \<noteq> 0 then
                   (let index = (ucast (count_of_codes unwind_info) :: u32);
                        index = (if index AND 1 \<noteq> 0 then index + 1 else index);
                        chain_offset = unwind_offset + offsetof_unwind_code +
                                       unat index * sizeof_UnwindCode
                    in case read_RuntimeFunction (buffer p) chain_offset of
                         Inl e \<Rightarrow> None
                       | Inr chain_func \<Rightarrow> Some chain_func)
                 else None))"

text \<open>A chain ends when finitely many links lead to a function without a further link.\<close>

inductive chain_ends :: "Parser \<Rightarrow> RuntimeFunction \<Rightarrow> bool" for p :: Parser where
  last_link: "chain_link p func = None \<Longrightarrow> chain_ends p func"
| next_link: "chain_link p func = Some chain_func \<Longrightarrow> chain_ends p chain_func \<Longrightarrow>
              chain_ends p func"

definition exception_entry ::
  "Parser \<Rightarrow> nat \<Rightarrow> nat \<Rightarrow> (error + RuntimeFunction \<times> UnwindInfo option) option" where
  "exception_entry p offset i =
     (case read_RuntimeFunction (buffer p) (offset + i * sizeof_RuntimeFunction) of
        Inl e \<Rightarrow> Some (Inl e)
      | Inr func \<Rightarrow>
          (case resolve_chained_function p offset func of
             None \<Rightarrow> None
           | Some resolved_func \<Rightarrow>
               if unwind_info_address resolved_func \<noteq> 0 then
                 (case rva_to_offset p (unwind_info_address resolved_func) of
                    Inl e \<Rightarrow> Some (Inr (resolved_func, None))
                  | Inr unwind_offset \<Rightarrow>
                      (case read_UnwindInfo (buffer p) unwind_offset of
                         Inl e \<Rightarrow> Some (Inr (resolved_func, None))
                       | Inr unwind_info \<Rightarrow> Some (Inr (resolved_func, Some unwind_info))))
               else Some (Inr (resolved_func, None))))"

text \<open>The counted loop, for a body that may not return.\<close>

fun collect_walk :: "('b \<Rightarrow> (error + 'a) option) \<Rightarrow> 'b list \<Rightarrow> (error + 'a list) option" where
  "collect_walk f [] = Some (Inr [])"
| "collect_walk f (i # is) =
     (case f i of
        None \<Rightarrow> None
      | Some (Inl e) \<Rightarrow> Some (Inl e)
      | Some (Inr x) \<Rightarrow>
          (case collect_walk f is of
             None \<Rightarrow> None
           | Some (Inl e) \<Rightarrow> Some (Inl e)
           | Some (Inr xs) \<Rightarrow> Some (Inr (x # xs))))"

definition get_exception_directory ::
  "Parser \<Rightarrow> (error + (RuntimeFunction \<times> UnwindInfo option) list) option" where
  "get_exception_directory p =
     (let exception_dir = data_directories (pe_info p) ! 3 in
      if dir_virtual_address exception_dir = 0 then Some (Inr [])
      else
        case rva_to_offset p (dir_virtual_address exception_dir) of
          Inl e \<Rightarrow> Some (Inl e)
        | Inr offset \<Rightarrow>
            collect_walk (exception_entry p offset)
              [0..<unat (dir_size exception_dir div word_of_nat sizeof_RuntimeFunction)])"

subsection \<open>TLS directory\<close>

record TlsDirectory64 =
  start_address_of_raw_data :: u64
  end_address_of_raw_data :: u64
  address_of_index :: u64
  address_of_callbacks :: u64
  size_of_zero_fill :: u32
  tls_characteristics :: u32

definition sizeof_TlsDirectory64 :: nat where "sizeof_TlsDirectory64 = 40"

definition dec_TlsDirectory64 :: "u8 list \<Rightarrow> nat \<Rightarrow> TlsDirectory64" where
  "dec_TlsDirectory64 d off =
     \<lparr> start_address_of_raw_data = u64_at d off,
       end_address_of_raw_data = u64_at d (off + 8),
       address_of_index = u64_at d (off + 16),
       address_of_callbacks = u64_at d (off + 24),
       size_of_zero_fill = u32_at d (off + 32),
       tls_characteristics = u32_at d (off + 36) \<rparr>"

definition read_TlsDirectory64 :: "u8 list \<Rightarrow> nat \<Rightarrow> error + TlsDirectory64" where
  "read_TlsDirectory64 = read_struct sizeof_TlsDirectory64 dec_TlsDirectory64"

partial_function (option) tls_callback_walk ::
  "u8 list \<Rightarrow> nat \<Rightarrow> u64 list \<Rightarrow> (error + u64 list) option" where
  "tls_callback_walk buf current_offset callbacks =
     (case read_u64 buf current_offset of
        Inl e \<Rightarrow> Some (Inl e)
      | Inr callback \<Rightarrow>
          if callback = 0 then Some (Inr callbacks)
          else tls_callback_walk buf (current_offset + 8) (callbacks @ [callback]))"

text \<open>
  \<^verbatim>\<open>return {}\<close> for an absent directory is the value-initialised result: a zeroed
  \<^verbatim>\<open>TlsDirectory64\<close> and no callbacks.
\<close>

definition zero_TlsDirectory64 :: TlsDirectory64 where
  "zero_TlsDirectory64 =
     \<lparr> start_address_of_raw_data = 0, end_address_of_raw_data = 0, address_of_index = 0,
       address_of_callbacks = 0, size_of_zero_fill = 0, tls_characteristics = 0 \<rparr>"

definition get_tls_directory :: "Parser \<Rightarrow> (error + TlsDirectory64 \<times> u64 list) option" where
  "get_tls_directory p =
     (let tls_dir = data_directories (pe_info p) ! 9 in
      if dir_virtual_address tls_dir = 0 then Some (Inr (zero_TlsDirectory64, []))
      else
        case rva_to_offset p (dir_virtual_address tls_dir) of
          Inl e \<Rightarrow> Some (Inl e)
        | Inr offset \<Rightarrow>
            (case read_TlsDirectory64 (buffer p) offset of
               Inl e \<Rightarrow> Some (Inl e)
             | Inr tls \<Rightarrow>
                 if address_of_callbacks tls \<noteq> 0 then
                   (case rva_to_offset p (ucast (address_of_callbacks tls)) of
                      Inl e \<Rightarrow> Some (Inl e)
                    | Inr callback_offset \<Rightarrow>
                        (case tls_callback_walk (buffer p) callback_offset [] of
                           None \<Rightarrow> None
                         | Some (Inl e) \<Rightarrow> Some (Inl e)
                         | Some (Inr callbacks) \<Rightarrow> Some (Inr (tls, callbacks))))
                 else Some (Inr (tls, []))))"


section \<open>Export directory\<close>

record ExportDirectory =
  export_name_rva :: u32
  base :: u32
  number_of_functions :: u32
  number_of_names :: u32
  address_of_functions :: u32
  address_of_names :: u32
  address_of_name_ordinals :: u32

definition sizeof_ExportDirectory :: nat where "sizeof_ExportDirectory = 40"

definition dec_ExportDirectory :: "u8 list \<Rightarrow> nat \<Rightarrow> ExportDirectory" where
  "dec_ExportDirectory d off =
     \<lparr> export_name_rva = u32_at d (off + 12),
       base = u32_at d (off + 16),
       number_of_functions = u32_at d (off + 20),
       number_of_names = u32_at d (off + 24),
       address_of_functions = u32_at d (off + 28),
       address_of_names = u32_at d (off + 32),
       address_of_name_ordinals = u32_at d (off + 36) \<rparr>"

definition read_ExportDirectory :: "u8 list \<Rightarrow> nat \<Rightarrow> error + ExportDirectory" where
  "read_ExportDirectory = read_struct sizeof_ExportDirectory dec_ExportDirectory"

definition zero_ExportDirectory :: ExportDirectory where
  "zero_ExportDirectory =
     \<lparr> export_name_rva = 0, base = 0, number_of_functions = 0, number_of_names = 0,
       address_of_functions = 0, address_of_names = 0, address_of_name_ordinals = 0 \<rparr>"

record ExportEntry =
  ee_name :: string
  ee_ordinal :: u32
  ee_forwarder_ordinal :: "u16 option"
  ee_address :: u64

text \<open>
  The body of the loop over the names. \<^verbatim>\<open>ordinal + export_table.base\<close> is a
  \<^verbatim>\<open>uint32_t\<close> sum, the range test uses \<^verbatim>\<open>uint32_t\<close> operands, and the address is
  a \<^verbatim>\<open>uint64_t\<close> sum.
\<close>

definition export_entry ::
  "Parser \<Rightarrow> DataDirectory \<Rightarrow> ExportDirectory \<Rightarrow> nat \<Rightarrow> nat \<Rightarrow> nat \<Rightarrow> nat \<Rightarrow>
   error + ExportEntry" where
  "export_entry p export_dir export_table functions_offset names_offset ordinals_offset i =
     (case read_u32 (buffer p) (names_offset + i * 4) of
        Inl e \<Rightarrow> Inl e
      | Inr name_rva_i \<Rightarrow>
          (case read_u16 (buffer p) (ordinals_offset + i * 2) of
             Inl e \<Rightarrow> Inl e
           | Inr ordinal \<Rightarrow>
               (case read_u32 (buffer p) (functions_offset + unat ordinal * 4) of
                  Inl e \<Rightarrow> Inl e
                | Inr function_rva \<Rightarrow>
                    (case (if name_rva_i \<noteq> 0 then string_at_rva p name_rva_i
                           else Inr []) of
                       Inl e \<Rightarrow> Inl e
                     | Inr nm \<Rightarrow>
                         Inr \<lparr> ee_name = nm,
                               ee_ordinal = ucast ordinal + base export_table,
                               ee_forwarder_ordinal =
                                 (if function_rva \<ge> dir_virtual_address export_dir \<and>
                                     function_rva < dir_virtual_address export_dir +
                                                    dir_size export_dir
                                  then Some ordinal else None),
                               ee_address =
                                 (if function_rva \<noteq> 0
                                  then get_image_base p + ucast function_rva else 0) \<rparr>))))"

definition get_export_directory :: "Parser \<Rightarrow> error + ExportDirectory \<times> ExportEntry list" where
  "get_export_directory p =
     (let export_dir = data_directories (pe_info p) ! 0 in
      if dir_virtual_address export_dir = 0 then Inr (zero_ExportDirectory, [])
      else
        case rva_to_offset p (dir_virtual_address export_dir) of
          Inl e \<Rightarrow> Inl e
        | Inr offset \<Rightarrow>
            (case read_ExportDirectory (buffer p) offset of
               Inl e \<Rightarrow> Inl e
             | Inr export_table \<Rightarrow>
                 (case (if export_name_rva export_table \<noteq> 0
                        then string_at_rva p (export_name_rva export_table)
                        else Inr []) of
                    Inl e \<Rightarrow> Inl e
                  | Inr dll_name \<Rightarrow>
                      (case rva_to_offset p (address_of_functions export_table) of
                         Inl e \<Rightarrow> Inl e
                       | Inr functions_offset \<Rightarrow>
                           (case rva_to_offset p (address_of_names export_table) of
                              Inl e \<Rightarrow> Inl e
                            | Inr names_offset \<Rightarrow>
                                (case rva_to_offset p (address_of_name_ordinals export_table) of
                                   Inl e \<Rightarrow> Inl e
                                 | Inr ordinals_offset \<Rightarrow>
                                     (case collect
                                             (export_entry p export_dir export_table
                                                functions_offset names_offset ordinals_offset)
                                             [0..<unat (number_of_names export_table)] of
                                        Inl e \<Rightarrow> Inl e
                                      | Inr entries \<Rightarrow> Inr (export_table, entries))))))))"

section \<open>Symbol URL\<close>





record CV_INFO_PDB20 =
  cv_header :: u32
  cv_offset :: u32
  signature :: u32
  age20 :: u32




subsection \<open>Formatting\<close>










subsection \<open>\<^verbatim>\<open>Parser::get_pdb_url\<close>\<close>






subsection \<open>The URL as the specification words it\<close>



section \<open>Concrete images\<close>

text \<open>
  The images used below are written byte by byte. They share their headers: a DOS header
  with \<open>e_lfanew = 64\<close>, the signature \<open>PE\0\0\<close> at offset 64, a file header at 68 for
  machine \<open>0x8664\<close> with an optional header of 240 bytes, the optional header at 88 with
  the given magic, entry point \<open>0x1000\<close> and image base \<open>0x140000000\<close>, and the sixteen
  data directories at 200. The section table starts at offset 328.
\<close>

definition pe_headers :: "u8 list \<Rightarrow> u8 \<Rightarrow> u8 list \<Rightarrow> u8 list" where
  "pe_headers optional_magic nsections dirs =
     [0x4D, 0x5A] @ replicate 58 0 @ [0x40, 0x00, 0x00, 0x00] @
     [0x50, 0x45, 0x00, 0x00] @
     [0x64, 0x86, nsections, 0x00] @ replicate 12 0 @ [0xF0, 0x00, 0x00, 0x00] @
     optional_magic @ replicate 14 0 @ [0x00, 0x10, 0x00, 0x00] @ replicate 4 0 @
     [0x00, 0x00, 0x00, 0x40, 0x01, 0x00, 0x00, 0x00] @ replicate 80 0 @
     dirs"

text \<open>
  A section header \<open>.text\<close> for the RVAs \<open>[virtual_address, virtual_address + 0x1000)\<close>
  with the given raw size and raw pointer (four bytes each, little-endian), executable.
\<close>

definition section_header_bytes :: "u8 list \<Rightarrow> u8 list \<Rightarrow> u8 list \<Rightarrow> u8 list" where
  "section_header_bytes va raw_size raw_pointer =
     [0x2E, 0x74, 0x65, 0x78, 0x74, 0x00, 0x00, 0x00] @ [0x00, 0x10, 0x00, 0x00] @ va @
     raw_size @ raw_pointer @ replicate 12 0 @ [0x20, 0x00, 0x00, 0x60]"

text \<open>
  With one section header the data start at offset 368; the images below map the RVAs
  from \<open>0x1000\<close> on to the file offsets from 368 on.
\<close>

definition one_section_image :: "u8 list \<Rightarrow> u8 \<Rightarrow> u8 list \<Rightarrow> u8 list" where
  "one_section_image dirs raw_size section_data =
     pe_headers [0x0B, 0x02] 1 dirs @
     section_header_bytes [0x00, 0x10, 0x00, 0x00] [raw_size, 0x00, 0x00, 0x00]
       [0x70, 0x01, 0x00, 0x00] @
     section_data"

definition parser_of :: "u8 list \<Rightarrow> DataDirectory list \<Rightarrow> SectionHeader list \<Rightarrow> Parser" where
  "parser_of img dirs sections =
     \<lparr> buffer = img,
       pe_info =
         \<lparr> dos_header = \<lparr> e_magic = 0x5A4D, e_lfanew = 64 \<rparr>,
           file_header = \<lparr> machine = 0x8664,
                           number_of_sections = word_of_nat (length sections),
                           size_of_optional_header = 240 \<rparr>,
           optional_header = \<lparr> magic = 0x20B, address_of_entry_point = 0x1000,
                               image_base = 0x140000000, opt_data_directories = dirs \<rparr>,
           section_headers = sections,
           data_directories = dirs \<rparr>,
       override_base_address_field = 0,
       override_entry_point_field = 0 \<rparr>"

definition text_section :: "u32 \<Rightarrow> SectionHeader" where
  "text_section raw_size =
     \<lparr> name = [0x2E, 0x74, 0x65, 0x78, 0x74, 0x00, 0x00, 0x00],
       virtual_size = 0x1000, virtual_address = 0x1000,
       size_of_raw_data = raw_size, pointer_to_raw_data = 0x170,
       characteristics = 0x60000020 \<rparr>"

definition no_dir :: DataDirectory where
  "no_dir = \<lparr> dir_virtual_address = 0, dir_size = 0 \<rparr>"

definition no_dirs :: "DataDirectory list" where
  "no_dirs = map (\<lambda>i. no_dir) [0::nat, 1, 2, 3, 4, 5, 6, 7, 8, 9, 10, 11, 12, 13, 14, 15]"

definition dirs_with :: "nat \<Rightarrow> u32 \<Rightarrow> u32 \<Rightarrow> DataDirectory list" where
  "dirs_with k va sz =
     map (\<lambda>i. if i = k then \<lparr> dir_virtual_address = va, dir_size = sz \<rparr> else no_dir)
       [0, 1, 2, 3, 4, 5, 6, 7, 8, 9, 10, 11, 12, 13, 14, 15]"

subsection \<open>An image with two exports, the second one forwarded\<close>

text \<open>
  Export directory at RVA \<open>0x1000\<close>, size \<open>0x4C\<close>: base 1, two functions, two names;
  function table at \<open>0x1028\<close> (\<open>0x1800\<close> and \<open>0x1048\<close>), name table at \<open>0x1030\<close>,
  ordinal table at \<open>0x1038\<close> (0 and 1), then the strings \<open>foo\<close>, \<open>bar\<close>, \<open>a.d\<close> and,
  at \<open>0x1048\<close> inside the directory, the forwarder \<open>X.y\<close>.
\<close>

definition export_image :: "u8 list" where
  "export_image =
     one_section_image
       ([0x00, 0x10, 0x00, 0x00, 0x4C, 0x00, 0x00, 0x00] @ replicate 120 0) 0x4C
       ([0x00, 0x00, 0x00, 0x00, 0x00, 0x00, 0x00, 0x00, 0x00, 0x00, 0x00, 0x00,
         0x44, 0x10, 0x00, 0x00, 0x01, 0x00, 0x00, 0x00, 0x02, 0x00, 0x00, 0x00,
         0x02, 0x00, 0x00, 0x00, 0x28, 0x10, 0x00, 0x00, 0x30, 0x10, 0x00, 0x00,
         0x38, 0x10, 0x00, 0x00] @
        [0x00, 0x18, 0x00, 0x00, 0x48, 0x10, 0x00, 0x00] @
        [0x3C, 0x10, 0x00, 0x00, 0x40, 0x10, 0x00, 0x00] @
        [0x00, 0x00, 0x01, 0x00] @
        [0x66, 0x6F, 0x6F, 0x00, 0x62, 0x61, 0x72, 0x00, 0x61, 0x2E, 0x64, 0x00,
         0x58, 0x2E, 0x79, 0x00])"

definition export_parser :: Parser where
  "export_parser = parser_of export_image (dirs_with 0 0x1000 0x4C) [text_section 0x4C]"

text \<open>What \<^verbatim>\<open>get_export_directory\<close> returns on this image.\<close>

definition export_table_result :: ExportDirectory where
  "export_table_result =
     \<lparr> export_name_rva = 0x1044, base = 1, number_of_functions = 2, number_of_names = 2,
       address_of_functions = 0x1028, address_of_names = 0x1030,
       address_of_name_ordinals = 0x1038 \<rparr>"

definition plain_entry :: ExportEntry where
  "plain_entry =
     \<lparr> ee_name = ''foo'', ee_ordinal = 1, ee_forwarder_ordinal = None,
       ee_address = 0x140001800 \<rparr>"

definition forwarded_entry :: ExportEntry where
  "forwarded_entry =
     \<lparr> ee_name = ''bar'', ee_ordinal = 2, ee_forwarder_ordinal = Some 1,
       ee_address = 0x140001048 \<rparr>"

subsection \<open>An image with one import descriptor\<close>

text \<open>
  Import directory at RVA \<open>0x1000\<close>: one descriptor (lookup table at \<open>0x1028\<close>, name at
  \<open>0x1048\<close>, address table at \<open>0x2000\<close>) and the zero descriptor; the lookup table holds
  the ordinal import \<open>0x8000000000000042\<close>, the name import \<open>0x1040\<close> and the zero slot;
  at \<open>0x1040\<close> the hint 7 and the name \<open>Foo\<close>; at \<open>0x1048\<close> the name \<open>k.dll\<close>.
\<close>

definition import_image :: "u8 list" where
  "import_image =
     one_section_image
       (replicate 8 0 @ [0x00, 0x10, 0x00, 0x00, 0x28, 0x00, 0x00, 0x00] @ replicate 112 0) 0x4E
       ([0x28, 0x10, 0x00, 0x00, 0x00, 0x00, 0x00, 0x00, 0x00, 0x00, 0x00, 0x00,
         0x48, 0x10, 0x00, 0x00, 0x00, 0x20, 0x00, 0x00] @
        replicate 20 0 @
        [0x42, 0x00, 0x00, 0x00, 0x00, 0x00, 0x00, 0x80, 0x40, 0x10, 0x00, 0x00,
         0x00, 0x00, 0x00, 0x00, 0x00, 0x00, 0x00, 0x00, 0x00, 0x00, 0x00, 0x00] @
        [0x07, 0x00, 0x46, 0x6F, 0x6F, 0x00, 0x00, 0x00] @
        [0x6B, 0x2E, 0x64, 0x6C, 0x6C, 0x00])"

definition import_parser :: Parser where
  "import_parser = parser_of import_image (dirs_with 1 0x1000 0x28) [text_section 0x4E]"


subsection \<open>Images with a TLS directory\<close>

text \<open>
  TLS directory at RVA \<open>0x1000\<close> with \<open>address_of_callbacks = 0x100001028\<close>, whose low
  32 bits are the RVA \<open>0x1028\<close>; there the callbacks \<open>0x140001111\<close> and \<open>0x140002222\<close>.
  The first image ends after the second callback, the second one adds the zero
  terminator.
\<close>

definition tls_data :: "u8 list" where
  "tls_data =
     [0x00, 0x00, 0x00, 0x00, 0x00, 0x00, 0x00, 0x00, 0x00, 0x00, 0x00, 0x00,
      0x00, 0x00, 0x00, 0x00, 0x00, 0x00, 0x00, 0x00, 0x00, 0x00, 0x00, 0x00,
      0x28, 0x10, 0x00, 0x00, 0x01, 0x00, 0x00, 0x00, 0x00, 0x00, 0x00, 0x00,
      0x00, 0x00, 0x00, 0x00] @
     [0x11, 0x11, 0x00, 0x40, 0x01, 0x00, 0x00, 0x00, 0x22, 0x22, 0x00, 0x40,
      0x01, 0x00, 0x00, 0x00]"

definition tls_dirs_bytes :: "u8 list" where
  "tls_dirs_bytes =
     replicate 72 0 @ [0x00, 0x10, 0x00, 0x00, 0x28, 0x00, 0x00, 0x00] @ replicate 48 0"

definition tls_open_image :: "u8 list" where
  "tls_open_image = one_section_image tls_dirs_bytes 0x38 tls_data"

definition tls_closed_image :: "u8 list" where
  "tls_closed_image = one_section_image tls_dirs_bytes 0x40 (tls_data @ replicate 8 0)"

definition tls_open_parser :: Parser where
  "tls_open_parser = parser_of tls_open_image (dirs_with 9 0x1000 0x28) [text_section 0x38]"

definition tls_closed_parser :: Parser where
  "tls_closed_parser = parser_of tls_closed_image (dirs_with 9 0x1000 0x28) [text_section 0x40]"


definition tls_directory_result :: TlsDirectory64 where
  "tls_directory_result =
     \<lparr> start_address_of_raw_data = 0, end_address_of_raw_data = 0, address_of_index = 0,
       address_of_callbacks = 0x100001028, size_of_zero_fill = 0, tls_characteristics = 0 \<rparr>"

subsection \<open>Images with a debug directory\<close>

text \<open>
  Debug directory at RVA \<open>0x1000\<close> with two entries: one of type 1 without payload, and
  one of type 2 (CodeView) whose payload of 37 bytes lies at file offset 424: \<open>RSDS\<close>,
  the GUID \<open>{0x11223344, 0x5566, 0x7788, {0x99, 0xAA, 0xBB, 0xCC, 0xDD, 0xEE, 0xFF, 0x00}}\<close>,
  the age \<open>0x1A\<close> and the path \<open>c:\x\foo.pdb\<close> with its terminator. The second image
  ends after the two entries, before the payload.
\<close>

definition debug_dirs_bytes :: "u8 list" where
  "debug_dirs_bytes =
     replicate 48 0 @ [0x00, 0x10, 0x00, 0x00, 0x38, 0x00, 0x00, 0x00] @ replicate 72 0"

definition debug_entries_bytes :: "u8 list" where
  "debug_entries_bytes =
     [0x00, 0x00, 0x00, 0x00, 0x00, 0x00, 0x00, 0x00, 0x00, 0x00, 0x00, 0x00,
      0x01, 0x00, 0x00, 0x00, 0x00, 0x00, 0x00, 0x00, 0x00, 0x00, 0x00, 0x00,
      0x00, 0x00, 0x00, 0x00] @
     [0x00, 0x00, 0x00, 0x00, 0x00, 0x00, 0x00, 0x00, 0x00, 0x00, 0x00, 0x00,
      0x02, 0x00, 0x00, 0x00, 0x25, 0x00, 0x00, 0x00, 0x38, 0x10, 0x00, 0x00,
      0xA8, 0x01, 0x00, 0x00]"

definition rsds_payload :: "u8 list" where
  "rsds_payload =
     [0x52, 0x53, 0x44, 0x53, 0x44, 0x33, 0x22, 0x11, 0x66, 0x55, 0x88, 0x77,
      0x99, 0xAA, 0xBB, 0xCC, 0xDD, 0xEE, 0xFF, 0x00, 0x1A, 0x00, 0x00, 0x00,
      0x63, 0x3A, 0x5C, 0x78, 0x5C, 0x66, 0x6F, 0x6F, 0x2E, 0x70, 0x64, 0x62,
      0x00]"

definition debug_image :: "u8 list" where
  "debug_image = one_section_image debug_dirs_bytes 0x5D (debug_entries_bytes @ rsds_payload)"

definition debug_parser :: Parser where
  "debug_parser = parser_of debug_image (dirs_with 6 0x1000 0x38) [text_section 0x5D]"

text \<open>What \<^verbatim>\<open>get_debug_directory\<close> returns on this image.\<close>

definition debug_result :: "(DebugDirectory \<times> u8 list option) list" where
  "debug_result =
     [(\<lparr> type_field = 1, size_of_data = 0, address_of_raw_data = 0,
          dbg_pointer_to_raw_data = 0 \<rparr>, None),
      (\<lparr> type_field = 2, size_of_data = 37, address_of_raw_data = 0x1038,
          dbg_pointer_to_raw_data = 0x1A8 \<rparr>, Some rsds_payload)]"

definition debug_cut_image :: "u8 list" where
  "debug_cut_image = one_section_image debug_dirs_bytes 0x38 debug_entries_bytes"

definition debug_cut_parser :: Parser where
  "debug_cut_parser = parser_of debug_cut_image (dirs_with 6 0x1000 0x38) [text_section 0x38]"

subsection \<open>Images with an exception directory\<close>

text \<open>
  Exception directory at RVA \<open>0x1000\<close> with one \<^verbatim>\<open>RuntimeFunction\<close> whose unwind info
  is at \<open>0x1010\<close>. In the cyclic image this unwind info has the flags \<open>0x4\<close>
  (first byte \<open>0x21\<close>) and no codes, and the chained function at \<open>0x1014\<close> names the
  unwind info at \<open>0x1010\<close> again. In the chained image the unwind info has one code
  (rounded up to two), the chained function at \<open>0x1018\<close> names the unwind info at
  \<open>0x1024\<close>, and that one has no flag.
\<close>

definition exception_dirs_bytes :: "u8 list" where
  "exception_dirs_bytes =
     replicate 24 0 @ [0x00, 0x10, 0x00, 0x00, 0x0C, 0x00, 0x00, 0x00] @ replicate 96 0"

definition cyclic_image :: "u8 list" where
  "cyclic_image =
     one_section_image exception_dirs_bytes 0x20
       ([0x00, 0x11, 0x00, 0x00, 0x00, 0x12, 0x00, 0x00, 0x10, 0x10, 0x00, 0x00] @
        replicate 4 0 @
        [0x21, 0x00, 0x00, 0x00] @
        [0x00, 0x11, 0x00, 0x00, 0x00, 0x12, 0x00, 0x00, 0x10, 0x10, 0x00, 0x00])"

definition cyclic_parser :: Parser where
  "cyclic_parser = parser_of cyclic_image (dirs_with 3 0x1000 0x0C) [text_section 0x20]"

definition cyclic_function :: RuntimeFunction where
  "cyclic_function =
     \<lparr> begin_address = 0x1100, end_address = 0x1200, unwind_info_address = 0x1010 \<rparr>"

definition chained_image :: "u8 list" where
  "chained_image =
     one_section_image exception_dirs_bytes 0x2C
       ([0x00, 0x11, 0x00, 0x00, 0x00, 0x12, 0x00, 0x00, 0x10, 0x10, 0x00, 0x00] @
        replicate 4 0 @
        [0x21, 0x00, 0x01, 0x00] @
        [0x00, 0x00, 0x00, 0x00] @
        [0x00, 0x10, 0x00, 0x00, 0x00, 0x11, 0x00, 0x00, 0x24, 0x10, 0x00, 0x00] @
        [0x01, 0x04, 0x00, 0x00, 0x00, 0x00, 0x00, 0x00])"

definition chained_parser :: Parser where
  "chained_parser = parser_of chained_image (dirs_with 3 0x1000 0x0C) [text_section 0x2C]"

subsection \<open>Images for the header checks and the section table\<close>

text \<open>A DOS header whose magic is \<open>0x5B4D\<close>.\<close>

definition bad_magic_image :: "u8 list" where
  "bad_magic_image = [0x4D, 0x5B] @ replicate 62 0"

text \<open>The headers of a 32-bit image: optional-header magic \<open>0x10B\<close>, no section.\<close>

definition pe32_image :: "u8 list" where
  "pe32_image = pe_headers [0x0B, 0x01] 0 (replicate 128 0)"

text \<open>
  Two short files. The first holds nothing but the two bytes \<open>4D 5B\<close>. The second is a
  32-bit image of 312 bytes: DOS header, signature, file header for the machine
  \<open>0x8664\<close>, and the 224 bytes of a PE32 optional header (magic \<open>0x10B\<close>) at offset 88,
  16 bytes fewer than \<^verbatim>\<open>sizeof(OptionalHeader)\<close>.
\<close>

definition short_magic_image :: "u8 list" where
  "short_magic_image = [0x4D, 0x5B]"

definition short_pe32_image :: "u8 list" where
  "short_pe32_image = pe_headers [0x0B, 0x01] 0 (replicate 112 0)"

text \<open>
  Two overlapping sections: the first covers the RVAs \<open>[0x1000, 0x2000)\<close> with raw
  pointer \<open>0x400\<close>, the second \<open>[0x1800, 0x2800)\<close> with raw pointer \<open>0x1400\<close>.
\<close>

definition overlap_image :: "u8 list" where
  "overlap_image =
     pe_headers [0x0B, 0x02] 2 (replicate 128 0) @
     section_header_bytes [0x00, 0x10, 0x00, 0x00] [0x00, 0x00, 0x00, 0x00]
       [0x00, 0x04, 0x00, 0x00] @
     section_header_bytes [0x00, 0x18, 0x00, 0x00] [0x00, 0x00, 0x00, 0x00]
       [0x00, 0x14, 0x00, 0x00]"

definition first_section :: SectionHeader where
  "first_section =
     \<lparr> name = [0x2E, 0x74, 0x65, 0x78, 0x74, 0x00, 0x00, 0x00],
       virtual_size = 0x1000, virtual_address = 0x1000,
       size_of_raw_data = 0, pointer_to_raw_data = 0x400,
       characteristics = 0x60000020 \<rparr>"

definition second_section :: SectionHeader where
  "second_section =
     \<lparr> name = [0x2E, 0x74, 0x65, 0x78, 0x74, 0x00, 0x00, 0x00],
       virtual_size = 0x1000, virtual_address = 0x1800,
       size_of_raw_data = 0, pointer_to_raw_data = 0x1400,
       characteristics = 0x60000020 \<rparr>"

definition overlap_parser :: Parser where
  "overlap_parser =
     parser_of overlap_image no_dirs [first_section, second_section]"

text \<open>
  A file that ends after its section table, although the section header announces
  \<open>0x4C\<close> raw bytes at offset 368.
\<close>

definition truncated_image :: "u8 list" where
  "truncated_image = one_section_image (replicate 128 0) 0x4C []"

definition truncated_parser :: Parser where
  "truncated_parser = parser_of truncated_image no_dirs [text_section 0x4C]"

subsection \<open>An image with a relocation block of size zero\<close>

text \<open>
  Relocation directory at RVA \<open>0x1000\<close> with size 8; the section data are \<open>2 ^ 32\<close>
  zero bytes, so the first block has \<open>size_of_block = 0\<close> and all the \<open>0x7FFFFFFC\<close>
  entries it announces can be read.
\<close>

definition reloc_dirs_bytes :: "u8 list" where
  "reloc_dirs_bytes =
     replicate 40 0 @ [0x00, 0x10, 0x00, 0x00, 0x08, 0x00, 0x00, 0x00] @ replicate 80 0"

definition stalled_image :: "u8 list" where
  "stalled_image = one_section_image reloc_dirs_bytes 0x00 (replicate 4294967296 0)"

definition stalled_parser :: Parser where
  "stalled_parser = parser_of stalled_image (dirs_with 5 0x1000 0x08) [text_section 0x00]"

section \<open>Properties\<close>

subsection \<open>Evaluation of the concrete images\<close>

lemma upt_16: "[0..<16] = [0, 1, 2, 3, 4, 5, 6, 7, 8, 9, 10, 11, 12, 13, 14, 15]"
  by code_simp

lemma upt_2: "[0..<2] = [0, 1]"
  by code_simp

lemma le_nat_zeros: "le_nat (replicate n 0) = 0"
  by (induction n) auto

lemmas scalar_eval =
  read_struct_def read_u16_def read_u32_def read_u64_def
  u8_at_def u16_at_def u32_at_def u64_at_def bytes_at_def le_nat_zeros

lemmas header_eval =
  parse_def new_Parser_def read_DosHeader_def read_FileHeader_def read_OptionalHeader_def
  read_SectionHeader_def dec_DosHeader_def dec_FileHeader_def dec_OptionalHeader_def
  dec_SectionHeader_def dec_DataDirectory_def sizeof_DosHeader_def sizeof_FileHeader_def
  sizeof_OptionalHeader_def sizeof_SectionHeader_def upt_16 upt_2

lemmas image_eval =
  pe_headers_def section_header_bytes_def one_section_image_def parser_of_def
  text_section_def no_dir_def no_dirs_def dirs_with_def

text \<open>Each image is accepted by the constructor, which yields the parser used below.\<close>

lemma overlap_parsed: "new_Parser overlap_image = Inr overlap_parser"
  by (simp add: scalar_eval header_eval image_eval overlap_image_def overlap_parser_def
      first_section_def second_section_def)

lemma export_parsed: "new_Parser export_image = Inr export_parser"
  by (simp add: scalar_eval header_eval image_eval export_image_def export_parser_def)

lemma import_parsed: "new_Parser import_image = Inr import_parser"
  by (simp add: scalar_eval header_eval image_eval import_image_def import_parser_def)

lemma tls_open_parsed: "new_Parser tls_open_image = Inr tls_open_parser"
  by (simp add: scalar_eval header_eval image_eval tls_open_image_def tls_open_parser_def
      tls_data_def tls_dirs_bytes_def)

lemma tls_closed_parsed: "new_Parser tls_closed_image = Inr tls_closed_parser"
  by (simp add: scalar_eval header_eval image_eval tls_closed_image_def tls_closed_parser_def
      tls_data_def tls_dirs_bytes_def)

lemma debug_parsed: "new_Parser debug_image = Inr debug_parser"
  by (simp add: scalar_eval header_eval image_eval debug_image_def debug_parser_def
      debug_dirs_bytes_def debug_entries_bytes_def rsds_payload_def)

lemma debug_cut_parsed: "new_Parser debug_cut_image = Inr debug_cut_parser"
  by (simp add: scalar_eval header_eval image_eval debug_cut_image_def debug_cut_parser_def
      debug_dirs_bytes_def debug_entries_bytes_def)

lemma cyclic_parsed: "new_Parser cyclic_image = Inr cyclic_parser"
  by (simp add: scalar_eval header_eval image_eval cyclic_image_def cyclic_parser_def
      exception_dirs_bytes_def)

lemma chained_parsed: "new_Parser chained_image = Inr chained_parser"
  by (simp add: scalar_eval header_eval image_eval chained_image_def chained_parser_def
      exception_dirs_bytes_def)

lemma truncated_parsed: "new_Parser truncated_image = Inr truncated_parser"
  by (simp add: scalar_eval header_eval image_eval truncated_image_def truncated_parser_def)

subsection \<open>Address mapper\<close>

lemma find_first:
  "xs = pre @ x # post \<Longrightarrow> \<forall>y\<in>set pre. \<not> P y \<Longrightarrow> P x \<Longrightarrow> find P xs = Some x"
  by (induction pre arbitrary: xs) auto

text \<open>
  C3 as stated: for every section \<open>S\<close> and every RVA \<open>r\<close> inside \<open>S\<close>,
  \<^verbatim>\<open>rva_to_offset(r)\<close> is \<open>r - S.virtual_address + S.pointer_to_raw_data\<close>. This fails
  on an image whose sections overlap: the linear scan stops at the first section holding
  \<open>r\<close>. In the image with the sections \<open>[0x1000, 0x2000)\<close> and \<open>[0x1800, 0x2800)\<close> the
  RVA \<open>0x1900\<close> lies in the second section, for which the claim gives
  \<open>0x1900 - 0x1800 + 0x1400 = 0x1500\<close>, and the parser answers
  \<open>0x1900 - 0x1000 + 0x400 = 0xD00\<close>.
\<close>

theorem rva_to_offset_overlap_counterexample:
  "new_Parser overlap_image = Inr overlap_parser \<and>
   second_section \<in> set (section_headers (pe_info overlap_parser)) \<and>
   virtual_address second_section \<le> 0x1900 \<and>
   0x1900 < virtual_address second_section + virtual_size second_section \<and>
   rva_to_offset overlap_parser 0x1900 \<noteq>
     Inr (unat (0x1900 - virtual_address second_section + pointer_to_raw_data second_section)) \<and>
   rva_to_offset overlap_parser 0x1900 = Inr 0xD00 \<and>
   unat (0x1900 - virtual_address second_section + pointer_to_raw_data second_section) = 0x1500"
  by (simp add: overlap_parsed)
     (simp add: overlap_parser_def parser_of_def first_section_def second_section_def
        rva_to_offset_def is_rva_in_section_def)

text \<open>
  C3, amended: for every parser and every RVA \<open>r\<close>, if \<open>S\<close> is the first section header,
  in table order, with \<open>S.virtual_address \<le> r < S.virtual_address + S.virtual_size\<close>
  (in particular if it is the only one), then \<^verbatim>\<open>rva_to_offset(r)\<close> returns
  \<open>r - S.virtual_address + S.pointer_to_raw_data\<close>; and if no section header satisfies
  the condition, \<^verbatim>\<open>rva_to_offset(r)\<close> fails with \<open>RvaUnmapped\<close>. The comparison and the
  result are those of the source, on 32-bit unsigned operands.
\<close>

theorem rva_to_offset_first_section:
  "(section_headers (pe_info p) = pre @ S # post \<and>
    (\<forall>S'\<in>set pre. \<not> (virtual_address S' \<le> r \<and> r < virtual_address S' + virtual_size S')) \<and>
    virtual_address S \<le> r \<and> r < virtual_address S + virtual_size S \<longrightarrow>
    rva_to_offset p r = Inr (unat (r - virtual_address S + pointer_to_raw_data S))) \<and>
   ((\<forall>S\<in>set (section_headers (pe_info p)).
       \<not> (virtual_address S \<le> r \<and> r < virtual_address S + virtual_size S)) \<longrightarrow>
    rva_to_offset p r = Inl RvaUnmapped)"
proof (intro conjI impI)
  assume a: "section_headers (pe_info p) = pre @ S # post \<and>
    (\<forall>S'\<in>set pre. \<not> (virtual_address S' \<le> r \<and> r < virtual_address S' + virtual_size S')) \<and>
    virtual_address S \<le> r \<and> r < virtual_address S + virtual_size S"
  then have "find (is_rva_in_section r) (section_headers (pe_info p)) = Some S"
    by (intro find_first[where pre=pre and post=post]) (auto simp: is_rva_in_section_def)
  then show "rva_to_offset p r = Inr (unat (r - virtual_address S + pointer_to_raw_data S))"
    by (simp add: rva_to_offset_def)
next
  assume "\<forall>S\<in>set (section_headers (pe_info p)).
       \<not> (virtual_address S \<le> r \<and> r < virtual_address S + virtual_size S)"
  then have "find (is_rva_in_section r) (section_headers (pe_info p)) = None"
    by (auto simp: find_None_iff is_rva_in_section_def)
  then show "rva_to_offset p r = Inl RvaUnmapped"
    by (simp add: rva_to_offset_def)
qed

theorem rva_to_offset_first_section_witness:
  "rva_to_offset overlap_parser 0x1900 = Inr 0xD00 \<and>
   rva_to_offset overlap_parser 0x1050 = Inr 0x450 \<and>
   rva_to_offset overlap_parser 0x2100 = Inr 0x1D00 \<and>
   rva_to_offset overlap_parser 0x3000 = Inl RvaUnmapped"
proof -
  have secs: "section_headers (pe_info overlap_parser) = [] @ first_section # [second_section]"
    "section_headers (pe_info overlap_parser) = [first_section] @ second_section # []"
    by (simp_all add: overlap_parser_def parser_of_def)
  have 1: "rva_to_offset overlap_parser 0x1900 = Inr 0xD00"
    using rva_to_offset_first_section
      [of overlap_parser "[]" first_section "[second_section]" "0x1900"] secs(1)
    by (simp add: first_section_def)
  have 2: "rva_to_offset overlap_parser 0x1050 = Inr 0x450"
    using rva_to_offset_first_section
      [of overlap_parser "[]" first_section "[second_section]" "0x1050"] secs(1)
    by (simp add: first_section_def)
  have 3: "rva_to_offset overlap_parser 0x2100 = Inr 0x1D00"
    using rva_to_offset_first_section
      [of overlap_parser "[first_section]" second_section "[]" "0x2100"] secs(2)
    by (simp add: first_section_def second_section_def)
  have 4: "rva_to_offset overlap_parser 0x3000 = Inl RvaUnmapped"
    using rva_to_offset_first_section
      [of overlap_parser "[]" first_section "[second_section]" "0x3000"]
    by (simp add: overlap_parser_def parser_of_def first_section_def second_section_def)
  from 1 2 3 4 show ?thesis by simp
qed

subsection \<open>Header checks\<close>

lemma collect_no_check_error:
  "collect (\<lambda>i. read_struct sz dec buf (g i)) is = Inl e \<Longrightarrow> e = BufferOverflow"
  by (induction "is") (auto simp: read_struct_def split: if_splits sum.splits)

lemma read_struct_error: "read_struct sz dec buf off = Inl e \<Longrightarrow> e = BufferOverflow"
  by (simp add: read_struct_def split: if_splits)

lemma parse_sections_error:
  "collect (\<lambda>i. read_SectionHeader buf (g i)) is = Inl e \<Longrightarrow> e = BufferOverflow"
  unfolding read_SectionHeader_def by (rule collect_no_check_error)

text \<open>
  C7 as stated: for every input buffer, \<^verbatim>\<open>parse\<close> fails with \<open>NotPE\<close> iff the DOS magic
  differs from \<open>0x5A4D\<close>, and, given the three earlier checks, with
  \<open>UnsupportedOptionalMagic\<close> iff the optional-header magic differs from \<open>0x20B\<close>. This
  fails on short buffers, because \<^verbatim>\<open>read_struct\<close> refuses a header that does not fit
  into the buffer before its magic is looked at. The buffer of the two bytes \<open>4D 5B\<close> has
  a DOS magic, \<open>0x5B4D\<close>, that differs from \<open>0x5A4D\<close>, and \<^verbatim>\<open>parse\<close> fails with
  \<open>BufferOverflow\<close>, not with \<open>NotPE\<close>. The 32-bit image of 312 bytes passes the first
  three checks (magic \<open>MZ\<close>, \<open>e_lfanew = 64\<close>, signature \<open>0x00004550\<close>, machine
  \<open>0x8664\<close>) and has the optional-header magic \<open>0x10B\<close> at offset 88, and \<^verbatim>\<open>parse\<close>
  fails with \<open>BufferOverflow\<close>, not with \<open>UnsupportedOptionalMagic\<close>.
\<close>

theorem parse_short_buffer_counterexample:
  "length short_magic_image = 2 \<and>
   u16_at short_magic_image 0 = 0x5B4D \<and>
   \<not> (parse short_magic_image = Inl NotPE \<longleftrightarrow> u16_at short_magic_image 0 \<noteq> 0x5A4D) \<and>
   parse short_magic_image = Inl BufferOverflow \<and>
   length short_pe32_image = 312 \<and>
   u16_at short_pe32_image 0 = 0x5A4D \<and>
   u32_at short_pe32_image 60 = 64 \<and>
   u32_at short_pe32_image 64 = 0x00004550 \<and>
   u16_at short_pe32_image 68 = 0x8664 \<and>
   u16_at short_pe32_image 88 = 0x10B \<and>
   \<not> (parse short_pe32_image = Inl UnsupportedOptionalMagic \<longleftrightarrow>
        u16_at short_pe32_image 88 \<noteq> 0x20B) \<and>
   parse short_pe32_image = Inl BufferOverflow"
proof -
  have a: "parse short_magic_image = Inl BufferOverflow"
    by (simp add: scalar_eval header_eval short_magic_image_def)
  have b: "u16_at short_magic_image 0 = 0x5B4D" "length short_magic_image = 2"
    by (simp_all add: scalar_eval short_magic_image_def)
  have c: "parse short_pe32_image = Inl BufferOverflow"
    by (simp add: scalar_eval header_eval image_eval short_pe32_image_def)
  have d: "length short_pe32_image = 312"
    "u16_at short_pe32_image 0 = 0x5A4D"
    "u32_at short_pe32_image 60 = 64"
    "u32_at short_pe32_image 64 = 0x00004550"
    "u16_at short_pe32_image 68 = 0x8664"
    "u16_at short_pe32_image 88 = 0x10B"
    by (simp_all add: scalar_eval image_eval short_pe32_image_def)
  from a b c d show ?thesis by simp
qed

text \<open>
  C7, amended: for every input buffer, \<^verbatim>\<open>parse\<close> performs its checks in order, each on
  a header that \<^verbatim>\<open>read_struct\<close> has read. It fails with \<open>NotPE\<close> iff the DOS header can
  be read and its magic differs from \<open>0x5A4D\<close>; given the magic \<open>MZ\<close>, it fails with
  \<open>BadNtSignature\<close> iff the four bytes at \<open>e_lfanew\<close> can be read and differ from
  \<open>0x00004550\<close>; given both, it fails with \<open>UnsupportedMachine\<close> iff the file header can
  be read and its machine differs from \<open>0x8664\<close>; given all three, it fails with
  \<open>UnsupportedOptionalMagic\<close> iff the optional header can be read and its magic differs
  from \<open>0x20B\<close>; and \<^verbatim>\<open>parse\<close> succeeds only when all four headers can be read and all
  four checks pass.
\<close>

theorem parse_checks_in_order:
  "(parse buf = Inl NotPE \<longleftrightarrow>
      (\<exists>dos. read_DosHeader buf 0 = Inr dos \<and> e_magic dos \<noteq> 0x5A4D)) \<and>
   (\<forall>dos. read_DosHeader buf 0 = Inr dos \<and> e_magic dos = 0x5A4D \<longrightarrow>
      (parse buf = Inl BadNtSignature \<longleftrightarrow>
         (\<exists>sig. read_u32 buf (unat (e_lfanew dos)) = Inr sig \<and> sig \<noteq> 0x00004550))) \<and>
   (\<forall>dos. read_DosHeader buf 0 = Inr dos \<and> e_magic dos = 0x5A4D \<and>
          read_u32 buf (unat (e_lfanew dos)) = Inr 0x00004550 \<longrightarrow>
      (parse buf = Inl UnsupportedMachine \<longleftrightarrow>
         (\<exists>fh. read_FileHeader buf (unat (e_lfanew dos) + 4) = Inr fh \<and>
               machine fh \<noteq> 0x8664))) \<and>
   (\<forall>dos fh. read_DosHeader buf 0 = Inr dos \<and> e_magic dos = 0x5A4D \<and>
          read_u32 buf (unat (e_lfanew dos)) = Inr 0x00004550 \<and>
          read_FileHeader buf (unat (e_lfanew dos) + 4) = Inr fh \<and> machine fh = 0x8664 \<longrightarrow>
      (parse buf = Inl UnsupportedOptionalMagic \<longleftrightarrow>
         (\<exists>oh. read_OptionalHeader buf (unat (e_lfanew dos) + 4 + sizeof_FileHeader) = Inr oh \<and>
               magic oh \<noteq> 0x20B))) \<and>
   (\<forall>info. parse buf = Inr info \<longrightarrow>
      (\<exists>dos fh oh.
         read_DosHeader buf 0 = Inr dos \<and> e_magic dos = 0x5A4D \<and>
         read_u32 buf (unat (e_lfanew dos)) = Inr 0x00004550 \<and>
         read_FileHeader buf (unat (e_lfanew dos) + 4) = Inr fh \<and> machine fh = 0x8664 \<and>
         read_OptionalHeader buf (unat (e_lfanew dos) + 4 + sizeof_FileHeader) = Inr oh \<and>
         magic oh = 0x20B))"
proof (intro conjI allI impI)
  show "parse buf = Inl NotPE \<longleftrightarrow>
      (\<exists>dos. read_DosHeader buf 0 = Inr dos \<and> e_magic dos \<noteq> 0x5A4D)"
    unfolding parse_def Let_def
    by (auto split: sum.splits if_splits
        dest!: parse_sections_error[of _ _ _ NotPE] read_struct_error[of _ _ _ _ NotPE]
        simp: read_DosHeader_def read_u32_def read_FileHeader_def read_OptionalHeader_def)
next
  fix dos
  assume "read_DosHeader buf 0 = Inr dos \<and> e_magic dos = 0x5A4D"
  then show "parse buf = Inl BadNtSignature \<longleftrightarrow>
         (\<exists>sig. read_u32 buf (unat (e_lfanew dos)) = Inr sig \<and> sig \<noteq> 0x00004550)"
    unfolding parse_def Let_def
    by (auto split: sum.splits if_splits
        dest!: parse_sections_error[of _ _ _ BadNtSignature] read_struct_error[of _ _ _ _ BadNtSignature]
        simp: read_u32_def read_FileHeader_def read_OptionalHeader_def)
next
  fix dos
  assume "read_DosHeader buf 0 = Inr dos \<and> e_magic dos = 0x5A4D \<and>
          read_u32 buf (unat (e_lfanew dos)) = Inr 0x00004550"
  then show "parse buf = Inl UnsupportedMachine \<longleftrightarrow>
         (\<exists>fh. read_FileHeader buf (unat (e_lfanew dos) + 4) = Inr fh \<and>
               machine fh \<noteq> 0x8664)"
    unfolding parse_def Let_def
    by (auto split: sum.splits if_splits
        dest!: parse_sections_error[of _ _ _ UnsupportedMachine] read_struct_error[of _ _ _ _ UnsupportedMachine]
        simp: read_FileHeader_def read_OptionalHeader_def)
next
  fix dos fh
  assume "read_DosHeader buf 0 = Inr dos \<and> e_magic dos = 0x5A4D \<and>
          read_u32 buf (unat (e_lfanew dos)) = Inr 0x00004550 \<and>
          read_FileHeader buf (unat (e_lfanew dos) + 4) = Inr fh \<and> machine fh = 0x8664"
  then show "parse buf = Inl UnsupportedOptionalMagic \<longleftrightarrow>
         (\<exists>oh. read_OptionalHeader buf (unat (e_lfanew dos) + 4 + sizeof_FileHeader) = Inr oh \<and>
               magic oh \<noteq> 0x20B)"
    unfolding parse_def Let_def
    by (auto split: sum.splits if_splits
        dest!: parse_sections_error[of _ _ _ UnsupportedOptionalMagic] read_struct_error[of _ _ _ _ UnsupportedOptionalMagic]
        simp: read_OptionalHeader_def)
next
  fix info
  assume "parse buf = Inr info"
  then show "\<exists>dos fh oh.
         read_DosHeader buf 0 = Inr dos \<and> e_magic dos = 0x5A4D \<and>
         read_u32 buf (unat (e_lfanew dos)) = Inr 0x00004550 \<and>
         read_FileHeader buf (unat (e_lfanew dos) + 4) = Inr fh \<and> machine fh = 0x8664 \<and>
         read_OptionalHeader buf (unat (e_lfanew dos) + 4 + sizeof_FileHeader) = Inr oh \<and>
         magic oh = 0x20B"
    unfolding parse_def Let_def
    by (auto split: sum.splits if_splits)
qed

text \<open>
  The scenarios S1 (magic bytes \<open>4D 5B\<close>) and S2 (optional-header magic \<open>0x10B\<close>), and
  an image that passes all four checks.
\<close>

theorem parse_checks_in_order_witness:
  "parse bad_magic_image = Inl NotPE \<and>
   parse pe32_image = Inl UnsupportedOptionalMagic \<and>
   parse export_image = Inr (pe_info export_parser) \<and>
   magic (optional_header (pe_info export_parser)) = 0x20B"
proof -
  have bad: "\<exists>dos. read_DosHeader bad_magic_image 0 = Inr dos \<and> e_magic dos \<noteq> 0x5A4D"
    by (simp add: scalar_eval header_eval bad_magic_image_def)
  have 1: "parse bad_magic_image = Inl NotPE"
    using parse_checks_in_order[of bad_magic_image] bad by blast
  have dos: "read_DosHeader pe32_image 0 = Inr \<lparr> e_magic = 0x5A4D, e_lfanew = 64 \<rparr>"
    by (simp add: scalar_eval header_eval image_eval pe32_image_def)
  have sig: "read_u32 pe32_image 64 = Inr 0x00004550"
    by (simp add: scalar_eval header_eval image_eval pe32_image_def)
  have fh: "read_FileHeader pe32_image 68 =
      Inr \<lparr> machine = 0x8664, number_of_sections = 0, size_of_optional_header = 240 \<rparr>"
    by (simp add: scalar_eval header_eval image_eval pe32_image_def)
  have oh: "\<exists>oh. read_OptionalHeader pe32_image (64 + 4 + sizeof_FileHeader) = Inr oh \<and>
      magic oh \<noteq> 0x20B"
    by (simp add: scalar_eval header_eval image_eval pe32_image_def)
  have "\<forall>dos fh. read_DosHeader pe32_image 0 = Inr dos \<and> e_magic dos = 0x5A4D \<and>
          read_u32 pe32_image (unat (e_lfanew dos)) = Inr 0x00004550 \<and>
          read_FileHeader pe32_image (unat (e_lfanew dos) + 4) = Inr fh \<and>
          machine fh = 0x8664 \<longrightarrow>
      (parse pe32_image = Inl UnsupportedOptionalMagic \<longleftrightarrow>
         (\<exists>oh. read_OptionalHeader pe32_image (unat (e_lfanew dos) + 4 + sizeof_FileHeader) =
                 Inr oh \<and> magic oh \<noteq> 0x20B))"
    using parse_checks_in_order[of pe32_image] by blast
  from this[rule_format, of "\<lparr> e_magic = 0x5A4D, e_lfanew = 64 \<rparr>"
      "\<lparr> machine = 0x8664, number_of_sections = 0, size_of_optional_header = 240 \<rparr>"]
    dos sig fh oh
  have 2: "parse pe32_image = Inl UnsupportedOptionalMagic"
    by simp
  have 3: "parse export_image = Inr (pe_info export_parser)"
    using export_parsed
    by (auto simp: new_Parser_def split: sum.splits dest: arg_cong[where f = pe_info])
  have 4: "magic (optional_header (pe_info export_parser)) = 0x20B"
    by (simp add: export_parser_def parser_of_def)
  from 1 2 3 4 show ?thesis by simp
qed

subsection \<open>Overrides\<close>

text \<open>
  C8: \<^verbatim>\<open>get_image_base()\<close> returns the base-address override when it is non-zero and
  the on-disk image base otherwise. Setting the base-address override to 0 makes
  \<^verbatim>\<open>get_image_base()\<close> return the on-disk image base, and setting the entry-point
  override to 0 makes \<^verbatim>\<open>get_entry_point()\<close> return the on-disk image base plus the
  on-disk entry-point RVA. On a parser on which the other override is not set, setting
  either override to a value and back to 0 gives back the very parser on which no
  override was ever set, so both accessors return the values derived from the headers.
\<close>

theorem override_zero_restores:
  "get_image_base p =
     (if override_base_address_field p \<noteq> 0 then override_base_address_field p
      else image_base (optional_header (pe_info p))) \<and>
   get_image_base (override_base_address 0 p) = image_base (optional_header (pe_info p)) \<and>
   get_entry_point (override_entry_point 0 p) =
     image_base (optional_header (pe_info p)) +
     ucast (address_of_entry_point (optional_header (pe_info p))) \<and>
   (override_entry_point_field p = 0 \<longrightarrow>
      get_entry_point (override_base_address 0 (override_base_address a p)) =
        image_base (optional_header (pe_info p)) +
        ucast (address_of_entry_point (optional_header (pe_info p)))) \<and>
   (override_base_address_field p = 0 \<longrightarrow>
      get_image_base (override_entry_point 0 (override_entry_point a p)) =
        image_base (optional_header (pe_info p))) \<and>
   (new_Parser buf = Inr p \<longrightarrow>
      override_base_address 0 (override_base_address a p) = p \<and>
      override_entry_point 0 (override_entry_point a p) = p \<and>
      get_image_base p = image_base (optional_header (pe_info p)) \<and>
      get_entry_point p =
        image_base (optional_header (pe_info p)) +
        ucast (address_of_entry_point (optional_header (pe_info p))))"
  by (auto simp: get_image_base_def get_entry_point_def override_base_address_def
      override_entry_point_def new_Parser_def split: sum.splits)

theorem override_zero_restores_witness:
  "get_image_base (override_base_address 0x7FF000000000 export_parser) = 0x7FF000000000 \<and>
   get_entry_point (override_entry_point 0x2000 export_parser) = 0x140002000 \<and>
   override_base_address 0 (override_base_address 0x7FF000000000 export_parser) = export_parser \<and>
   override_entry_point 0 (override_entry_point 0x2000 export_parser) = export_parser \<and>
   get_image_base export_parser = 0x140000000 \<and>
   get_entry_point export_parser = 0x140001000"
proof -
  have a: "get_image_base (override_base_address 0x7FF000000000 export_parser) = 0x7FF000000000"
    using override_zero_restores
      [where p = "override_base_address 0x7FF000000000 export_parser"]
    by (simp add: override_base_address_def)
  have b: "get_entry_point (override_entry_point 0x2000 export_parser) = 0x140002000"
    by (simp add: get_entry_point_def get_image_base_def override_entry_point_def
        export_parser_def parser_of_def)
  have c: "override_base_address 0 (override_base_address 0x7FF000000000 export_parser) =
      export_parser \<and>
    override_entry_point 0 (override_entry_point 0x2000 export_parser) = export_parser"
    using override_zero_restores
        [where p = export_parser and a = "0x7FF000000000" and buf = export_image]
      override_zero_restores
        [where p = export_parser and a = "0x2000" and buf = export_image] export_parsed
    by simp
  have d: "get_image_base export_parser = 0x140000000 \<and>
    get_entry_point export_parser = 0x140001000"
    using override_zero_restores[where p = export_parser and buf = export_image]
      export_parsed
    by (simp add: export_parser_def parser_of_def)
  from a b c d show ?thesis by simp
qed

subsection \<open>Counted loops\<close>

lemma collect_Inr:
  "collect f is = Inr xs \<Longrightarrow>
   length xs = length is \<and> (\<forall>k < length is. f (is ! k) = Inr (xs ! k))"
proof (induction "is" arbitrary: xs)
  case Nil
  then show ?case by simp
next
  case (Cons i "is")
  from Cons.prems obtain x xs' where x: "f i = Inr x" and xs': "collect f is = Inr xs'"
    and xs: "xs = x # xs'"
    by (auto split: sum.splits)
  from Cons.IH[OF xs'] have len: "length xs' = length is"
    and nth: "\<forall>k < length is. f (is ! k) = Inr (xs' ! k)"
    by simp_all
  show ?case
  proof (intro conjI allI impI)
    show "length xs = length (i # is)" using len xs by simp
  next
    fix k assume "k < length (i # is)"
    then show "f ((i # is) ! k) = Inr (xs ! k)"
      using x nth xs by (cases k) simp_all
  qed
qed

lemma collect_upt_Inr:
  "collect f [0..<n] = Inr xs \<Longrightarrow> length xs = n \<and> (\<forall>k < n. f k = Inr (xs ! k))"
  using collect_Inr[of f "[0..<n]" xs] by simp

subsection \<open>Export directory\<close>

text \<open>What one round of the loop over the names yields.\<close>

lemma export_entry_Inr:
  assumes "export_entry p export_dir export_table functions_offset names_offset
             ordinals_offset i = Inr entry"
  shows "\<exists>ordinal function_rva.
     read_u16 (buffer p) (ordinals_offset + i * 2) = Inr ordinal \<and>
     read_u32 (buffer p) (functions_offset + unat ordinal * 4) = Inr function_rva \<and>
     ee_ordinal entry = ucast ordinal + base export_table \<and>
     ee_forwarder_ordinal entry =
       (if dir_virtual_address export_dir \<le> function_rva \<and>
           function_rva < dir_virtual_address export_dir + dir_size export_dir
        then Some ordinal else None) \<and>
     ee_address entry =
       (if function_rva = 0 then 0 else get_image_base p + ucast function_rva)"
proof -
  from assms obtain name_rva_i where
    1: "read_u32 (buffer p) (names_offset + i * 4) = Inr name_rva_i"
    unfolding export_entry_def
    by (cases "read_u32 (buffer p) (names_offset + i * 4)") simp_all
  from assms 1 obtain ordinal where
    2: "read_u16 (buffer p) (ordinals_offset + i * 2) = Inr ordinal"
    unfolding export_entry_def
    by (cases "read_u16 (buffer p) (ordinals_offset + i * 2)") simp_all
  from assms 1 2 obtain function_rva where
    3: "read_u32 (buffer p) (functions_offset + unat ordinal * 4) = Inr function_rva"
    unfolding export_entry_def
    by (cases "read_u32 (buffer p) (functions_offset + unat ordinal * 4)") simp_all
  from assms 1 2 3 obtain n where
    4: "(if name_rva_i \<noteq> 0 then string_at_rva p name_rva_i else Inr []) = Inr n"
    unfolding export_entry_def
    by (cases "if name_rva_i \<noteq> 0 then string_at_rva p name_rva_i else Inr []")
       (simp_all split del: if_split cong: if_cong)
  from assms have "entry =
      \<lparr> ee_name = n,
        ee_ordinal = ucast ordinal + base export_table,
        ee_forwarder_ordinal =
          (if function_rva \<ge> dir_virtual_address export_dir \<and>
              function_rva < dir_virtual_address export_dir + dir_size export_dir
           then Some ordinal else None),
        ee_address =
          (if function_rva \<noteq> 0 then get_image_base p + ucast function_rva else 0) \<rparr>"
    unfolding export_entry_def 1 2 3 sum.case 4 by simp
  with 2 3 show ?thesis by auto
qed

lemma get_export_directory_Inr:
  assumes "get_export_directory p = Inr (export_table, entries)"
    and "dir_virtual_address (data_directories (pe_info p) ! 0) \<noteq> 0"
  shows "\<exists>offset functions_offset names_offset ordinals_offset.
     rva_to_offset p (dir_virtual_address (data_directories (pe_info p) ! 0)) = Inr offset \<and>
     read_ExportDirectory (buffer p) offset = Inr export_table \<and>
     rva_to_offset p (address_of_functions export_table) = Inr functions_offset \<and>
     rva_to_offset p (address_of_names export_table) = Inr names_offset \<and>
     rva_to_offset p (address_of_name_ordinals export_table) = Inr ordinals_offset \<and>
     collect (export_entry p (data_directories (pe_info p) ! 0) export_table
                functions_offset names_offset ordinals_offset)
       [0..<unat (number_of_names export_table)] = Inr entries"
proof -
  let ?dir = "data_directories (pe_info p) ! 0"
  note g = assms(1)[unfolded get_export_directory_def Let_def if_not_P[OF assms(2)]]
  from g obtain offset where
    1: "rva_to_offset p (dir_virtual_address ?dir) = Inr offset"
    by (cases "rva_to_offset p (dir_virtual_address ?dir)") simp_all
  from g 1 obtain t where 2: "read_ExportDirectory (buffer p) offset = Inr t"
    by (cases "read_ExportDirectory (buffer p) offset") simp_all
  from g 1 2 obtain dll_name where
    3: "(if export_name_rva t \<noteq> 0 then string_at_rva p (export_name_rva t) else Inr []) =
        Inr dll_name"
    by (cases "if export_name_rva t \<noteq> 0 then string_at_rva p (export_name_rva t) else Inr []")
       (simp_all split del: if_split cong: if_cong)
  note g' = g[unfolded 1 2 sum.case 3]
  from g' obtain functions_offset where
    4: "rva_to_offset p (address_of_functions t) = Inr functions_offset"
    by (cases "rva_to_offset p (address_of_functions t)") simp_all
  from g' 4 obtain names_offset where
    5: "rva_to_offset p (address_of_names t) = Inr names_offset"
    by (cases "rva_to_offset p (address_of_names t)") simp_all
  from g' 4 5 obtain ordinals_offset where
    6: "rva_to_offset p (address_of_name_ordinals t) = Inr ordinals_offset"
    by (cases "rva_to_offset p (address_of_name_ordinals t)") simp_all
  from g' 4 5 6 obtain es where
    7: "collect (export_entry p ?dir t functions_offset names_offset ordinals_offset)
          [0..<unat (number_of_names t)] = Inr es"
    by (cases "collect (export_entry p ?dir t functions_offset names_offset ordinals_offset)
          [0..<unat (number_of_names t)]") simp_all
  from g' 4 5 6 7 have "t = export_table" "es = entries" by simp_all
  with 1 2 4 5 6 7 show ?thesis by blast
qed

text \<open>
  C4: for every parser with an export directory (RVA not zero) on which
  \<^verbatim>\<open>get_export_directory\<close> returns, there are as many entries as names, and for each
  \<open>i\<close> below \<open>number_of_names\<close> the \<open>i\<close>-th entry has, with \<open>ordinal\<close> the 16-bit value
  at \<open>ordinals_offset + i * 2\<close> and \<open>function_rva\<close> the 32-bit value at
  \<open>functions_offset + ordinal * 4\<close>: public ordinal \<open>ordinal + base\<close>; a forwarder
  ordinal iff \<open>function_rva\<close> lies in
  \<open>[export_dir.virtual_address, export_dir.virtual_address + export_dir.size)\<close>, and then
  it is \<open>ordinal\<close>; and address 0 when \<open>function_rva\<close> is 0 and the effective image
  base plus \<open>function_rva\<close> otherwise. The sums are the source's: the public ordinal
  and the end of the range on 32 bits, the address on 64 bits.
\<close>

theorem export_entries_shape:
  assumes "get_export_directory p = Inr (export_table, entries)"
    and "dir_virtual_address (data_directories (pe_info p) ! 0) \<noteq> 0"
  shows "\<exists>functions_offset ordinals_offset.
     rva_to_offset p (address_of_functions export_table) = Inr functions_offset \<and>
     rva_to_offset p (address_of_name_ordinals export_table) = Inr ordinals_offset \<and>
     length entries = unat (number_of_names export_table) \<and>
     (\<forall>i < unat (number_of_names export_table). \<exists>ordinal function_rva.
        read_u16 (buffer p) (ordinals_offset + i * 2) = Inr ordinal \<and>
        read_u32 (buffer p) (functions_offset + unat ordinal * 4) = Inr function_rva \<and>
        ee_ordinal (entries ! i) = ucast ordinal + base export_table \<and>
        (ee_forwarder_ordinal (entries ! i) \<noteq> None \<longleftrightarrow>
           dir_virtual_address (data_directories (pe_info p) ! 0) \<le> function_rva \<and>
           function_rva < dir_virtual_address (data_directories (pe_info p) ! 0) +
                          dir_size (data_directories (pe_info p) ! 0)) \<and>
        (ee_forwarder_ordinal (entries ! i) \<noteq> None \<longrightarrow>
           ee_forwarder_ordinal (entries ! i) = Some ordinal) \<and>
        ee_address (entries ! i) =
          (if function_rva = 0 then 0 else get_image_base p + ucast function_rva))"
proof -
  from get_export_directory_Inr[OF assms]
  obtain functions_offset names_offset ordinals_offset where
    f: "rva_to_offset p (address_of_functions export_table) = Inr functions_offset" and
    n: "rva_to_offset p (address_of_name_ordinals export_table) = Inr ordinals_offset" and
    c: "collect (export_entry p (data_directories (pe_info p) ! 0) export_table
                functions_offset names_offset ordinals_offset)
       [0..<unat (number_of_names export_table)] = Inr entries"
    by blast
  from collect_upt_Inr[OF c] have len: "length entries = unat (number_of_names export_table)"
    and each: "\<And>i. i < unat (number_of_names export_table) \<Longrightarrow>
      export_entry p (data_directories (pe_info p) ! 0) export_table
        functions_offset names_offset ordinals_offset i = Inr (entries ! i)"
    by simp_all
  have "\<exists>ordinal function_rva.
        read_u16 (buffer p) (ordinals_offset + i * 2) = Inr ordinal \<and>
        read_u32 (buffer p) (functions_offset + unat ordinal * 4) = Inr function_rva \<and>
        ee_ordinal (entries ! i) = ucast ordinal + base export_table \<and>
        (ee_forwarder_ordinal (entries ! i) \<noteq> None \<longleftrightarrow>
           dir_virtual_address (data_directories (pe_info p) ! 0) \<le> function_rva \<and>
           function_rva < dir_virtual_address (data_directories (pe_info p) ! 0) +
                          dir_size (data_directories (pe_info p) ! 0)) \<and>
        (ee_forwarder_ordinal (entries ! i) \<noteq> None \<longrightarrow>
           ee_forwarder_ordinal (entries ! i) = Some ordinal) \<and>
        ee_address (entries ! i) =
          (if function_rva = 0 then 0 else get_image_base p + ucast function_rva)"
    if "i < unat (number_of_names export_table)" for i
  proof -
    from export_entry_Inr[OF each[OF that]] obtain ordinal function_rva where
      "read_u16 (buffer p) (ordinals_offset + i * 2) = Inr ordinal"
      "read_u32 (buffer p) (functions_offset + unat ordinal * 4) = Inr function_rva"
      "ee_ordinal (entries ! i) = ucast ordinal + base export_table"
      "ee_forwarder_ordinal (entries ! i) =
       (if dir_virtual_address (data_directories (pe_info p) ! 0) \<le> function_rva \<and>
           function_rva < dir_virtual_address (data_directories (pe_info p) ! 0) +
                          dir_size (data_directories (pe_info p) ! 0)
        then Some ordinal else None)"
      "ee_address (entries ! i) =
       (if function_rva = 0 then 0 else get_image_base p + ucast function_rva)"
      by blast
    then show ?thesis
      by (intro exI[of _ ordinal] exI[of _ function_rva]) simp
  qed
  with f n len show ?thesis by blast
qed

lemmas string_eval = string_at_rva_def c_string_at_def string_of_def char_of_def bit_0

lemmas export_eval =
  get_export_directory_def export_entry_def read_ExportDirectory_def dec_ExportDirectory_def
  sizeof_ExportDirectory_def rva_to_offset_def is_rva_in_section_def get_image_base_def

lemma export_directory_evaluated:
  "get_export_directory export_parser =
     Inr (export_table_result, [plain_entry, forwarded_entry])"
  by (simp add: export_eval scalar_eval string_eval image_eval upt_2 export_parser_def
      export_image_def export_table_result_def plain_entry_def forwarded_entry_def)

lemma export_tables_evaluated:
  "rva_to_offset export_parser 0x1028 = Inr 0x198 \<and>
   rva_to_offset export_parser 0x1038 = Inr 0x1A8 \<and>
   read_u16 (buffer export_parser) 0x1A8 = Inr 0 \<and>
   read_u16 (buffer export_parser) 0x1AA = Inr 1 \<and>
   read_u32 (buffer export_parser) 0x198 = Inr 0x1800 \<and>
   read_u32 (buffer export_parser) 0x19C = Inr 0x1048"
  by (simp add: export_eval scalar_eval image_eval export_parser_def export_image_def)

theorem export_entries_shape_witness:
  "get_export_directory export_parser =
     Inr (export_table_result, [plain_entry, forwarded_entry]) \<and>
   dir_virtual_address (data_directories (pe_info export_parser) ! 0) \<noteq> 0 \<and>
   (\<exists>functions_offset ordinals_offset.
     rva_to_offset export_parser (address_of_functions export_table_result) =
       Inr functions_offset \<and>
     rva_to_offset export_parser (address_of_name_ordinals export_table_result) =
       Inr ordinals_offset \<and>
     length [plain_entry, forwarded_entry] = unat (number_of_names export_table_result) \<and>
     (\<forall>i < unat (number_of_names export_table_result). \<exists>ordinal function_rva.
        read_u16 (buffer export_parser) (ordinals_offset + i * 2) = Inr ordinal \<and>
        read_u32 (buffer export_parser) (functions_offset + unat ordinal * 4) =
          Inr function_rva \<and>
        ee_ordinal ([plain_entry, forwarded_entry] ! i) =
          ucast ordinal + base export_table_result \<and>
        (ee_forwarder_ordinal ([plain_entry, forwarded_entry] ! i) \<noteq> None \<longleftrightarrow>
           dir_virtual_address (data_directories (pe_info export_parser) ! 0) \<le> function_rva \<and>
           function_rva < dir_virtual_address (data_directories (pe_info export_parser) ! 0) +
                          dir_size (data_directories (pe_info export_parser) ! 0)) \<and>
        (ee_forwarder_ordinal ([plain_entry, forwarded_entry] ! i) \<noteq> None \<longrightarrow>
           ee_forwarder_ordinal ([plain_entry, forwarded_entry] ! i) = Some ordinal) \<and>
        ee_address ([plain_entry, forwarded_entry] ! i) =
          (if function_rva = 0 then 0
           else get_image_base export_parser + ucast function_rva)))"
proof -
  have dir: "dir_virtual_address (data_directories (pe_info export_parser) ! 0) \<noteq> 0"
    by (simp add: export_parser_def image_eval)
  from export_entries_shape[OF export_directory_evaluated dir] export_directory_evaluated dir
  show ?thesis by (intro conjI)
qed

text \<open>
  C1 as stated: every entry whose function RVA lies in the export directory's own range
  is marked as a forwarder and has its address reported as zero. The second part fails:
  the second export of the image above has the function RVA \<open>0x1048\<close>, inside the
  directory \<open>[0x1000, 0x104C)\<close>; it is marked as a forwarder, and its address is
  \<open>0x140000000 + 0x1048\<close>, not zero.
\<close>

theorem forwarder_address_counterexample:
  "new_Parser export_image = Inr export_parser \<and>
   get_export_directory export_parser =
     Inr (export_table_result, [plain_entry, forwarded_entry]) \<and>
   dir_virtual_address (data_directories (pe_info export_parser) ! 0) = 0x1000 \<and>
   dir_size (data_directories (pe_info export_parser) ! 0) = 0x4C \<and>
   rva_to_offset export_parser (address_of_name_ordinals export_table_result) = Inr 0x1A8 \<and>
   read_u16 (buffer export_parser) (0x1A8 + 1 * 2) = Inr 1 \<and>
   rva_to_offset export_parser (address_of_functions export_table_result) = Inr 0x198 \<and>
   read_u32 (buffer export_parser) (0x198 + 1 * 4) = Inr 0x1048 \<and>
   (0x1000 :: u32) \<le> 0x1048 \<and> (0x1048 :: u32) < 0x1000 + 0x4C \<and>
   ee_forwarder_ordinal forwarded_entry = Some 1 \<and>
   ee_address forwarded_entry = 0x140001048 \<and>
   ee_address forwarded_entry \<noteq> 0"
  using export_parsed export_directory_evaluated export_tables_evaluated
  by (simp add: export_table_result_def forwarded_entry_def export_parser_def image_eval)

text \<open>
  C1, amended: every entry emitted by \<^verbatim>\<open>get_export_directory\<close> whose function RVA lies
  within the export directory's own RVA range is marked as a forwarder, with its table
  ordinal as forwarder ordinal, and its address is reported as the effective image base
  plus the function RVA (a 64-bit sum; the end of the range is a 32-bit sum).
\<close>

theorem forwarder_entries:
  assumes "get_export_directory p = Inr (export_table, entries)"
    and "dir_virtual_address (data_directories (pe_info p) ! 0) \<noteq> 0"
  shows "\<exists>functions_offset ordinals_offset.
     rva_to_offset p (address_of_functions export_table) = Inr functions_offset \<and>
     rva_to_offset p (address_of_name_ordinals export_table) = Inr ordinals_offset \<and>
     (\<forall>i < length entries. \<exists>ordinal function_rva.
        read_u16 (buffer p) (ordinals_offset + i * 2) = Inr ordinal \<and>
        read_u32 (buffer p) (functions_offset + unat ordinal * 4) = Inr function_rva \<and>
        (dir_virtual_address (data_directories (pe_info p) ! 0) \<le> function_rva \<and>
         function_rva < dir_virtual_address (data_directories (pe_info p) ! 0) +
                        dir_size (data_directories (pe_info p) ! 0) \<longrightarrow>
           ee_forwarder_ordinal (entries ! i) = Some ordinal \<and>
           ee_address (entries ! i) = get_image_base p + ucast function_rva))"
proof -
  let ?dir = "data_directories (pe_info p) ! 0"
  from get_export_directory_Inr[OF assms]
  obtain functions_offset names_offset ordinals_offset where
    f: "rva_to_offset p (address_of_functions export_table) = Inr functions_offset" and
    n: "rva_to_offset p (address_of_name_ordinals export_table) = Inr ordinals_offset" and
    c: "collect (export_entry p ?dir export_table
                functions_offset names_offset ordinals_offset)
       [0..<unat (number_of_names export_table)] = Inr entries"
    by blast
  from collect_upt_Inr[OF c] have len: "length entries = unat (number_of_names export_table)"
    and each: "\<And>i. i < unat (number_of_names export_table) \<Longrightarrow>
      export_entry p ?dir export_table
        functions_offset names_offset ordinals_offset i = Inr (entries ! i)"
    by simp_all
  have "\<exists>ordinal function_rva.
        read_u16 (buffer p) (ordinals_offset + i * 2) = Inr ordinal \<and>
        read_u32 (buffer p) (functions_offset + unat ordinal * 4) = Inr function_rva \<and>
        (dir_virtual_address ?dir \<le> function_rva \<and>
         function_rva < dir_virtual_address ?dir + dir_size ?dir \<longrightarrow>
           ee_forwarder_ordinal (entries ! i) = Some ordinal \<and>
           ee_address (entries ! i) = get_image_base p + ucast function_rva)"
    if "i < length entries" for i
  proof -
    from that len have "i < unat (number_of_names export_table)" by simp
    from export_entry_Inr[OF each[OF this]] obtain ordinal function_rva where
      r: "read_u16 (buffer p) (ordinals_offset + i * 2) = Inr ordinal"
        "read_u32 (buffer p) (functions_offset + unat ordinal * 4) = Inr function_rva" and
      fw: "ee_forwarder_ordinal (entries ! i) =
       (if dir_virtual_address ?dir \<le> function_rva \<and>
           function_rva < dir_virtual_address ?dir + dir_size ?dir
        then Some ordinal else None)" and
      ad: "ee_address (entries ! i) =
       (if function_rva = 0 then 0 else get_image_base p + ucast function_rva)"
      by blast
    have "function_rva \<noteq> 0" if "dir_virtual_address ?dir \<le> function_rva"
      using that assms(2) by auto
    with r fw ad show ?thesis
      by (intro exI[of _ ordinal] exI[of _ function_rva]) simp
  qed
  with f n show ?thesis by blast
qed

theorem forwarder_entries_witness:
  "get_export_directory export_parser =
     Inr (export_table_result, [plain_entry, forwarded_entry]) \<and>
   dir_virtual_address (data_directories (pe_info export_parser) ! 0) \<noteq> 0 \<and>
   (\<exists>functions_offset ordinals_offset.
     rva_to_offset export_parser (address_of_functions export_table_result) =
       Inr functions_offset \<and>
     rva_to_offset export_parser (address_of_name_ordinals export_table_result) =
       Inr ordinals_offset \<and>
     (\<forall>i < length [plain_entry, forwarded_entry]. \<exists>ordinal function_rva.
        read_u16 (buffer export_parser) (ordinals_offset + i * 2) = Inr ordinal \<and>
        read_u32 (buffer export_parser) (functions_offset + unat ordinal * 4) =
          Inr function_rva \<and>
        (dir_virtual_address (data_directories (pe_info export_parser) ! 0) \<le> function_rva \<and>
         function_rva < dir_virtual_address (data_directories (pe_info export_parser) ! 0) +
                        dir_size (data_directories (pe_info export_parser) ! 0) \<longrightarrow>
           ee_forwarder_ordinal ([plain_entry, forwarded_entry] ! i) = Some ordinal \<and>
           ee_address ([plain_entry, forwarded_entry] ! i) =
             get_image_base export_parser + ucast function_rva)))"
proof -
  have dir: "dir_virtual_address (data_directories (pe_info export_parser) ! 0) \<noteq> 0"
    by (simp add: export_parser_def image_eval)
  from forwarder_entries[OF export_directory_evaluated dir] export_directory_evaluated dir
  show ?thesis by (intro conjI)
qed

subsection \<open>TLS callbacks\<close>

lemma read_u64_Inr: "off + 8 \<le> length buf \<Longrightarrow> read_u64 buf off = Inr (u64_at buf off)"
  by (simp add: read_u64_def read_struct_def)

lemma read_u64_Inl: "length buf < off + 8 \<Longrightarrow> read_u64 buf off = Inl BufferOverflow"
  by (simp add: read_u64_def read_struct_def)

text \<open>
  With the first zero slot at position \<open>n\<close>, the walk returns the \<open>n\<close> slots before
  it.
\<close>

lemma tls_callback_walk_terminated:
  assumes "off + 8 * n + 8 \<le> length buf"
    and "u64_at buf (off + 8 * n) = 0"
    and "\<forall>k < n. u64_at buf (off + 8 * k) \<noteq> 0"
  shows "tls_callback_walk buf off acc =
     Some (Inr (acc @ map (\<lambda>k. u64_at buf (off + 8 * k)) [0..<n]))"
  using assms
proof (induction n arbitrary: off acc)
  case 0
  then show ?case
    by (subst tls_callback_walk.simps) (simp add: read_u64_Inr)
next
  case (Suc n)
  have here: "read_u64 buf off = Inr (u64_at buf off)"
    using Suc.prems(1) by (simp add: read_u64_Inr)
  have nz: "u64_at buf off \<noteq> 0"
    using Suc.prems(3)[rule_format, of 0] by simp
  have rest: "tls_callback_walk buf (off + 8) (acc @ [u64_at buf off]) =
      Some (Inr ((acc @ [u64_at buf off]) @
                 map (\<lambda>k. u64_at buf (off + 8 + 8 * k)) [0..<n]))"
  proof (rule Suc.IH)
    show "off + 8 + 8 * n + 8 \<le> length buf" using Suc.prems(1) by simp
    show "u64_at buf (off + 8 + 8 * n) = 0"
      using Suc.prems(2) by (simp add: add.assoc add.left_commute)
    show "\<forall>k<n. u64_at buf (off + 8 + 8 * k) \<noteq> 0"
    proof (intro allI impI)
      fix k assume "k < n"
      then have "Suc k < Suc n" by simp
      from Suc.prems(3)[rule_format, OF this]
      show "u64_at buf (off + 8 + 8 * k) \<noteq> 0"
        by (simp add: add.assoc)
    qed
  qed
  have shift: "map (\<lambda>k. u64_at buf (off + 8 * k)) [0..<Suc n] =
      u64_at buf off # map (\<lambda>k. u64_at buf (off + 8 + 8 * k)) [0..<n]"
    by (simp add: upt_conv_Cons map_Suc_upt[symmetric] add.assoc add.left_commute
        del: upt_Suc)
  show ?case
    by (subst tls_callback_walk.simps) (simp add: here nz rest shift del: upt_Suc)
qed

text \<open>Without a zero slot inside the buffer, the walk ends in the failing read.\<close>

lemma tls_callback_walk_open:
  assumes "\<forall>k. off + 8 * k + 8 \<le> length buf \<longrightarrow> u64_at buf (off + 8 * k) \<noteq> 0"
  shows "tls_callback_walk buf off acc = Some (Inl BufferOverflow)"
  using assms
proof (induction "length buf - off" arbitrary: off acc rule: less_induct)
  case less
  show ?case
  proof (cases "off + 8 \<le> length buf")
    case False
    then show ?thesis
      by (subst tls_callback_walk.simps) (simp add: read_u64_Inl)
  next
    case True
    have nz: "u64_at buf off \<noteq> 0"
      using less.prems[rule_format, of 0] True by simp
    have "tls_callback_walk buf (off + 8) (acc @ [u64_at buf off]) = Some (Inl BufferOverflow)"
    proof (rule less.hyps)
      show "length buf - (off + 8) < length buf - off" using True by simp
      show "\<forall>k. off + 8 + 8 * k + 8 \<le> length buf \<longrightarrow> u64_at buf (off + 8 + 8 * k) \<noteq> 0"
      proof (intro allI impI)
        fix k assume "off + 8 + 8 * k + 8 \<le> length buf"
        then have "off + 8 * Suc k + 8 \<le> length buf" by simp
        from less.prems[rule_format, OF this]
        show "u64_at buf (off + 8 + 8 * k) \<noteq> 0"
          by (simp add: add.assoc)
      qed
    qed
    then show ?thesis
      by (subst tls_callback_walk.simps) (simp add: read_u64_Inr True nz)
  qed
qed

text \<open>
  C10: on a parser whose TLS directory is read and has a non-zero
  \<^verbatim>\<open>address_of_callbacks\<close> mapped to \<open>callback_offset\<close>: if none of the 64-bit slots
  \<open>callback_offset + 8 * k\<close> that fit into the buffer is zero, \<^verbatim>\<open>get_tls_directory\<close>
  fails with \<open>BufferOverflow\<close> and yields no list at all; and if the first zero slot is
  the \<open>n\<close>-th one, it returns the directory with exactly the \<open>n\<close> non-zero values
  before that slot.
\<close>

theorem tls_callbacks_terminator:
  assumes "dir_virtual_address (data_directories (pe_info p) ! 9) \<noteq> 0"
    and "rva_to_offset p (dir_virtual_address (data_directories (pe_info p) ! 9)) = Inr offset"
    and "read_TlsDirectory64 (buffer p) offset = Inr tls"
    and "address_of_callbacks tls \<noteq> 0"
    and "rva_to_offset p (ucast (address_of_callbacks tls)) = Inr callback_offset"
  shows "((\<forall>k. callback_offset + 8 * k + 8 \<le> length (buffer p) \<longrightarrow>
             u64_at (buffer p) (callback_offset + 8 * k) \<noteq> 0) \<longrightarrow>
          get_tls_directory p = Some (Inl BufferOverflow)) \<and>
         (\<forall>n. callback_offset + 8 * n + 8 \<le> length (buffer p) \<and>
              u64_at (buffer p) (callback_offset + 8 * n) = 0 \<and>
              (\<forall>k < n. u64_at (buffer p) (callback_offset + 8 * k) \<noteq> 0) \<longrightarrow>
          get_tls_directory p =
            Some (Inr (tls, map (\<lambda>k. u64_at (buffer p) (callback_offset + 8 * k)) [0..<n])))"
proof (intro conjI allI impI)
  assume "\<forall>k. callback_offset + 8 * k + 8 \<le> length (buffer p) \<longrightarrow>
             u64_at (buffer p) (callback_offset + 8 * k) \<noteq> 0"
  then have "tls_callback_walk (buffer p) callback_offset [] = Some (Inl BufferOverflow)"
    by (rule tls_callback_walk_open)
  with assms show "get_tls_directory p = Some (Inl BufferOverflow)"
    by (simp add: get_tls_directory_def)
next
  fix n
  assume "callback_offset + 8 * n + 8 \<le> length (buffer p) \<and>
              u64_at (buffer p) (callback_offset + 8 * n) = 0 \<and>
              (\<forall>k < n. u64_at (buffer p) (callback_offset + 8 * k) \<noteq> 0)"
  then have "tls_callback_walk (buffer p) callback_offset [] =
      Some (Inr ([] @ map (\<lambda>k. u64_at (buffer p) (callback_offset + 8 * k)) [0..<n]))"
    by (intro tls_callback_walk_terminated) simp_all
  with assms show "get_tls_directory p =
            Some (Inr (tls, map (\<lambda>k. u64_at (buffer p) (callback_offset + 8 * k)) [0..<n]))"
    by (simp add: get_tls_directory_def)
qed

lemmas tls_eval =
  read_TlsDirectory64_def dec_TlsDirectory64_def sizeof_TlsDirectory64_def
  rva_to_offset_def is_rva_in_section_def tls_data_def tls_dirs_bytes_def
  tls_directory_result_def

text \<open>
  The image that ends after its second callback fails with \<open>BufferOverflow\<close>; the
  image with the terminator yields both callbacks.
\<close>

theorem tls_callbacks_terminator_witness:
  "get_tls_directory tls_open_parser = Some (Inl BufferOverflow) \<and>
   get_tls_directory tls_closed_parser =
     Some (Inr (tls_directory_result, [0x140001111, 0x140002222]))"
proof -
  have aoc: "address_of_callbacks tls_directory_result \<noteq> 0"
    "(ucast (address_of_callbacks tls_directory_result) :: u32) = 0x1028"
    by (simp_all add: tls_directory_result_def)
  have o_dir: "dir_virtual_address (data_directories (pe_info tls_open_parser) ! 9) \<noteq> 0"
    and o_off: "rva_to_offset tls_open_parser
        (dir_virtual_address (data_directories (pe_info tls_open_parser) ! 9)) = Inr 368"
    and o_tls: "read_TlsDirectory64 (buffer tls_open_parser) 368 = Inr tls_directory_result"
    and o_cb: "rva_to_offset tls_open_parser
        (ucast (address_of_callbacks tls_directory_result)) = Inr 408"
    and o_len: "length (buffer tls_open_parser) = 424"
    and o_slots: "u64_at (buffer tls_open_parser) 408 = 0x140001111"
      "u64_at (buffer tls_open_parser) 416 = 0x140002222"
    unfolding aoc
    by (simp_all add: tls_open_parser_def tls_open_image_def image_eval scalar_eval tls_eval)
  have o_open: "\<forall>k. 408 + 8 * k + 8 \<le> length (buffer tls_open_parser) \<longrightarrow>
      u64_at (buffer tls_open_parser) (408 + 8 * k) \<noteq> 0"
  proof (intro allI impI)
    fix k assume "408 + 8 * k + 8 \<le> length (buffer tls_open_parser)"
    then have "k = 0 \<or> k = 1" using o_len by arith
    then show "u64_at (buffer tls_open_parser) (408 + 8 * k) \<noteq> 0"
      using o_slots by auto
  qed
  have 1: "get_tls_directory tls_open_parser = Some (Inl BufferOverflow)"
    using tls_callbacks_terminator[OF o_dir o_off o_tls aoc(1) o_cb] o_open by blast
  have c_dir: "dir_virtual_address (data_directories (pe_info tls_closed_parser) ! 9) \<noteq> 0"
    and c_off: "rva_to_offset tls_closed_parser
        (dir_virtual_address (data_directories (pe_info tls_closed_parser) ! 9)) = Inr 368"
    and c_tls: "read_TlsDirectory64 (buffer tls_closed_parser) 368 = Inr tls_directory_result"
    and c_cb: "rva_to_offset tls_closed_parser
        (ucast (address_of_callbacks tls_directory_result)) = Inr 408"
    and c_len: "length (buffer tls_closed_parser) = 432"
    and c_slots: "u64_at (buffer tls_closed_parser) 408 = 0x140001111"
      "u64_at (buffer tls_closed_parser) 416 = 0x140002222"
      "u64_at (buffer tls_closed_parser) 424 = 0"
    unfolding aoc
    by (simp_all add: tls_closed_parser_def tls_closed_image_def image_eval scalar_eval tls_eval)
  have c_closed: "408 + 8 * 2 + 8 \<le> length (buffer tls_closed_parser) \<and>
      u64_at (buffer tls_closed_parser) (408 + 8 * 2) = 0 \<and>
      (\<forall>k < 2. u64_at (buffer tls_closed_parser) (408 + 8 * k) \<noteq> 0)"
  proof (intro conjI allI impI)
    show "408 + 8 * 2 + 8 \<le> length (buffer tls_closed_parser)" using c_len by simp
    show "u64_at (buffer tls_closed_parser) (408 + 8 * 2) = 0" using c_slots by simp
  next
    fix k :: nat assume "k < 2"
    then have "k = 0 \<or> k = 1" by arith
    then show "u64_at (buffer tls_closed_parser) (408 + 8 * k) \<noteq> 0"
      using c_slots by auto
  qed
  have "get_tls_directory tls_closed_parser =
      Some (Inr (tls_directory_result,
        map (\<lambda>k. u64_at (buffer tls_closed_parser) (408 + 8 * k)) [0..<2]))"
    using tls_callbacks_terminator[OF c_dir c_off c_tls aoc(1) c_cb] c_closed by blast
  then have 2: "get_tls_directory tls_closed_parser =
      Some (Inr (tls_directory_result, [0x140001111, 0x140002222]))"
    using c_slots by (simp add: upt_2)
  from 1 2 show ?thesis by simp
qed

subsection \<open>Import directory\<close>

lemma bit63_numeral: "((data :: u64) AND 0x8000000000000000 = 0) = (\<not> bit data 63)"
proof -
  have "(0x8000000000000000 :: u64) = 2 ^ 63" by simp
  then show ?thesis by (simp only: and_exp_eq_0_iff_not_bit)
qed

lemma bit63: "(data AND push_bit 63 1 \<noteq> 0) = bit (data :: u64) 63"
  by (simp add: bit63_numeral)









subsection \<open>Symbol URL\<close>














lemmas debug_eval =
  read_DebugDirectory_def dec_DebugDirectory_def sizeof_DebugDirectory_def
  rva_to_offset_def is_rva_in_section_def debug_dirs_bytes_def debug_entries_bytes_def







subsection \<open>Which walks return\<close>

text \<open>
  The walks that stop at a terminator, at a size field or at the end of the buffer
  return on every input: each round either leaves the walk or moves the offset forward
  inside the buffer.
\<close>

lemma tls_callback_walk_returns: "\<exists>r. tls_callback_walk buf off acc = Some r"
proof (induction "length buf - off" arbitrary: off acc rule: less_induct)
  case less
  show ?case
  proof (cases "off + 8 \<le> length buf")
    case False
    then show ?thesis
      by (subst tls_callback_walk.simps) (simp add: read_u64_Inl)
  next
    case True
    then have "length buf - (off + 8) < length buf - off" by simp
    from less.hyps[OF this] obtain r where
      "tls_callback_walk buf (off + 8) (acc @ [u64_at buf off]) = Some r"
      by blast
    with True show ?thesis
      by (subst tls_callback_walk.simps) (simp add: read_u64_Inr)
  qed
qed

lemma get_tls_directory_returns: "\<exists>r. get_tls_directory p = Some r"
proof -
  have "\<exists>r. (case tls_callback_walk buf off [] of
               None \<Rightarrow> None
             | Some (Inl e) \<Rightarrow> Some (Inl e)
             | Some (Inr callbacks) \<Rightarrow> Some (Inr (tls, callbacks))) = Some r"
    for buf off and tls :: TlsDirectory64
    using tls_callback_walk_returns[of buf off "[]"]
    by (auto split: sum.splits)
  then show ?thesis
    unfolding get_tls_directory_def Let_def
    by (simp split: sum.splits)
qed

lemma import_lookup_walk_returns: "\<exists>r. import_lookup_walk p iat off idx acc = Some r"
proof (induction "length (buffer p) - off" arbitrary: off idx acc rule: less_induct)
  case less
  show ?case
  proof (cases "off + 8 \<le> length (buffer p)")
    case False
    then show ?thesis
      by (subst import_lookup_walk.simps) (simp add: read_u64_Inl)
  next
    case True
    then have "length (buffer p) - (off + 8) < length (buffer p) - off" by simp
    from less.hyps[OF this] have
      "\<exists>r. import_lookup_walk p iat (off + 8) (Suc idx) (acc @ [entry]) = Some r" for entry
      by blast
    with True show ?thesis
      by (subst import_lookup_walk.simps)
         (simp add: read_u64_Inr sizeof_ImportLookupEntry64_def split: sum.splits)
  qed
qed

lemma import_descriptor_walk_returns: "\<exists>r. import_descriptor_walk p cur acc = Some r"
proof (induction "length (buffer p) - cur" arbitrary: cur acc rule: less_induct)
  case less
  show ?case
  proof (cases "cur + sizeof_ImportDirectory \<le> length (buffer p)")
    case False
    then show ?thesis
      by (subst import_descriptor_walk.simps) simp
  next
    case True
    then have "length (buffer p) - (cur + sizeof_ImportDirectory) < length (buffer p) - cur"
      by (simp add: sizeof_ImportDirectory_def)
    from less.hyps[OF this] have rec:
      "\<exists>r. import_descriptor_walk p (cur + sizeof_ImportDirectory) (acc @ [d]) = Some r" for d
      by blast
    have inner: "\<exists>r. Option.bind (import_lookup_walk p iat lookup_offset 0 [])
        (\<lambda>r. case r of
               Inl e \<Rightarrow> Some (Inl e)
             | Inr entries \<Rightarrow>
                 import_descriptor_walk p (cur + sizeof_ImportDirectory)
                   (acc @ [(dll_name, entries)])) = Some r"
      for iat lookup_offset dll_name
    proof -
      from import_lookup_walk_returns obtain r where
        r: "import_lookup_walk p iat lookup_offset 0 [] = Some r" by blast
      show ?thesis
      proof (cases r)
        case (Inl e)
        with r show ?thesis by simp
      next
        case (Inr entries)
        with r rec[of "(dll_name, entries)"] show ?thesis by simp
      qed
    qed
    show ?thesis
      by (subst import_descriptor_walk.simps) (simp add: True inner split: sum.splits)
  qed
qed

lemma get_import_directory_returns: "\<exists>r. get_import_directory p = Some r"
  unfolding get_import_directory_def Let_def
  by (simp add: import_descriptor_walk_returns split: sum.splits)

text \<open>
  The relocation walk advances by \<open>size_of_block\<close>. A block of size zero announces
  \<open>(0 - 8) / 2 = 0x7FFFFFFC\<close> entries in 32-bit arithmetic, and reading them all needs a
  buffer of at least \<open>2 ^ 32\<close> bytes; on a shorter buffer the walk fails there with
  \<open>BufferOverflow\<close>, so every round that goes on has moved forward.
\<close>

lemma zero_block_needs_large_buffer:
  assumes "collect (relocation_entry buf cur) [0..<unat (((0 :: u32) - 8) div 2)] = Inr entries"
  shows "2 ^ 32 \<le> length buf"
proof -
  have count: "unat (((0 :: u32) - 8) div 2) = 2147483644" by simp
  from collect_upt_Inr[OF assms] count
  have "relocation_entry buf cur 2147483643 = Inr (entries ! 2147483643)" by simp
  then have "read_u16 buf (cur + 8 + 2147483643 * sizeof_BaseRelocationEntry) \<noteq>
      Inl BufferOverflow"
    by (auto simp: relocation_entry_def split: sum.splits)
  then have "cur + 8 + 2147483643 * 2 + 2 \<le> length buf"
    by (simp add: read_u16_def read_struct_def sizeof_BaseRelocationEntry_def
        split: if_splits)
  then show ?thesis by simp
qed

lemma relocation_walk_returns:
  assumes "length buf < 2 ^ 32"
  shows "\<exists>r. relocation_walk buf end_offset cur acc = Some r"
proof (induction "end_offset - cur" arbitrary: cur acc rule: less_induct)
  case less
  show ?case
  proof (cases "cur < end_offset")
    case False
    then show ?thesis
      by (subst relocation_walk.simps) simp
  next
    case True
    show ?thesis
    proof (cases "read_BaseRelocationBlock buf cur")
      case (Inl e)
      with True show ?thesis
        by (subst relocation_walk.simps) simp
    next
      case (Inr block)
      show ?thesis
      proof (cases "collect (relocation_entry buf cur)
                      [0..<unat ((size_of_block block - 8) div 2)]")
        case (Inl e)
        with True Inr show ?thesis
          by (subst relocation_walk.simps) (simp add: Let_def)
      next
        case entries: (Inr entries)
        have "size_of_block block \<noteq> 0"
        proof
          assume "size_of_block block = 0"
          with entries have "2 ^ 32 \<le> length buf"
            by (intro zero_block_needs_large_buffer[of buf cur entries]) simp
          with assms show False by simp
        qed
        then have "0 < unat (size_of_block block)"
          by (simp add: unat_gt_0)
        with True have
          "end_offset - (cur + unat (size_of_block block)) < end_offset - cur"
          by simp
        from less.hyps[OF this] obtain r where
          "relocation_walk buf end_offset (cur + unat (size_of_block block))
             (acc @ [(block_virtual_address block, entries)]) = Some r"
          by blast
        with True Inr entries show ?thesis
          by (subst relocation_walk.simps) (simp add: Let_def)
      qed
    qed
  qed
qed

lemma get_relocation_directory_returns:
  "length (buffer p) < 2 ^ 32 \<Longrightarrow> \<exists>r. get_relocation_directory p = Some r"
  unfolding get_relocation_directory_def Let_def
  by (simp add: relocation_walk_returns split: sum.splits)

text \<open>
  On a buffer of \<open>2 ^ 32\<close> bytes or more the bound is needed: in the image of
  \<open>368 + 2 ^ 32\<close> bytes whose section data are all zero, the first relocation block has
  size zero, its \<open>0x7FFFFFFC\<close> entries are read, and the walk starts again at the same
  offset.
\<close>

lemma stalled_parsed: "new_Parser stalled_image = Inr stalled_parser"
  by (simp add: scalar_eval header_eval image_eval stalled_image_def stalled_parser_def
      reloc_dirs_bytes_def)

lemma stalled_image_split:
  "\<exists>hdr. stalled_image = hdr @ replicate 4294967296 0 \<and> length hdr = 368"
  by (rule exI[of _ "pe_headers [0x0B, 0x02] 1 reloc_dirs_bytes @
        section_header_bytes [0x00, 0x10, 0x00, 0x00] [0x00, 0x00, 0x00, 0x00]
          [0x70, 0x01, 0x00, 0x00]"])
     (simp add: stalled_image_def one_section_image_def pe_headers_def
        section_header_bytes_def reloc_dirs_bytes_def)

lemma stalled_image_zero_tail:
  assumes "368 \<le> off" and "off + n \<le> 4294967664"
  shows "bytes_at stalled_image off n = replicate n 0"
proof -
  from stalled_image_split obtain hdr where
    h: "stalled_image = hdr @ replicate 4294967296 0" "length hdr = 368"
    by blast
  from assms show ?thesis
    by (simp add: bytes_at_def h min_def)
qed

lemma length_stalled_image: "length stalled_image = 4294967664"
proof -
  from stalled_image_split obtain hdr where
    h: "stalled_image = hdr @ replicate 4294967296 0" "length hdr = 368"
    by blast
  have "length stalled_image = length (hdr @ replicate 4294967296 (0 :: u8))"
    by (simp only: h(1))
  with h(2) show ?thesis by simp
qed

lemma collect_constant:
  "\<forall>i \<in> set is. f i = Inr c \<Longrightarrow> collect f is = Inr (replicate (length is) c)"
  by (induction "is") simp_all

lemma stalled_block:
  "read_BaseRelocationBlock stalled_image 368 =
     Inr \<lparr> block_virtual_address = 0, size_of_block = 0 \<rparr>"
proof -
  note length_stalled_image
  then show ?thesis
    by (simp add: read_BaseRelocationBlock_def read_struct_def sizeof_BaseRelocationBlock_def
        dec_BaseRelocationBlock_def u32_at_def stalled_image_zero_tail le_nat_zeros)
qed

lemma stalled_entries:
  "collect (relocation_entry stalled_image 368) [0..<2147483644] =
     Inr (replicate 2147483644 \<lparr> reloc_type = 0, reloc_offset = 0 \<rparr>)"
proof -
  note len = length_stalled_image
  have "relocation_entry stalled_image 368 i = Inr \<lparr> reloc_type = 0, reloc_offset = 0 \<rparr>"
    if "i < 2147483644" for i
    using that
    by (simp add: relocation_entry_def read_u16_def read_struct_def len u16_at_def
        sizeof_BaseRelocationEntry_def stalled_image_zero_tail le_nat_zeros)
  then show ?thesis
    using collect_constant[of "[0..<2147483644]" "relocation_entry stalled_image 368"
        "\<lparr> reloc_type = 0, reloc_offset = 0 \<rparr>"]
    by simp
qed

lemma stalled_walk_never_returns:
  "relocation_walk stalled_image 376 368 acc = None"
proof (rule ccontr)
  assume "relocation_walk stalled_image 376 368 acc \<noteq> None"
  then obtain r where r: "relocation_walk stalled_image 376 368 acc = Some r"
    by blast
  have "\<not> (stalled_image = stalled_image \<and> (376 :: nat) = 376 \<and> (368 :: nat) = 368)"
  proof (rule relocation_walk.raw_induct
      [where P = "\<lambda>buf e c a y. \<not> (buf = stalled_image \<and> e = 376 \<and> c = 368)", OF _ r])
    fix walk :: "u8 list \<Rightarrow> nat \<Rightarrow> nat \<Rightarrow> (u32 \<times> RelocationEntry list) list \<Rightarrow>
      (error + (u32 \<times> RelocationEntry list) list) option"
    fix buf end_offset current_offset result y
    assume IH: "\<And>buf e c a y. walk buf e c a = Some y \<Longrightarrow>
      \<not> (buf = stalled_image \<and> e = 376 \<and> c = 368)"
    assume body: "(if current_offset < end_offset then
        (case read_BaseRelocationBlock buf current_offset of
           Inl e \<Rightarrow> Some (Inl e)
         | Inr block \<Rightarrow>
             let entry_count = (size_of_block block - 8) div 2 in
             (case collect (relocation_entry buf current_offset) [0..<unat entry_count] of
                Inl e \<Rightarrow> Some (Inl e)
              | Inr entries \<Rightarrow>
                  walk buf end_offset
                    (current_offset + unat (size_of_block block))
                    (result @ [(block_virtual_address block, entries)])))
      else Some (Inr result)) = Some y"
    show "\<not> (buf = stalled_image \<and> end_offset = 376 \<and> current_offset = 368)"
    proof
      assume here: "buf = stalled_image \<and> end_offset = 376 \<and> current_offset = 368"
      with body have "walk stalled_image 376 368
          (result @ [(0, replicate 2147483644 \<lparr> reloc_type = 0, reloc_offset = 0 \<rparr>)]) =
          Some y"
        by (simp add: stalled_block stalled_entries)
      from IH[OF this] show False by simp
    qed
  qed
  then show False by simp
qed

lemma stalled_directory_never_returns: "get_relocation_directory stalled_parser = None"
proof -
  have "dir_virtual_address (data_directories (pe_info stalled_parser) ! 5) = 0x1000"
    "dir_size (data_directories (pe_info stalled_parser) ! 5) = 8"
    "rva_to_offset stalled_parser 0x1000 = Inr 368"
    "buffer stalled_parser = stalled_image"
    by (simp_all add: stalled_parser_def image_eval rva_to_offset_def is_rva_in_section_def)
  then show ?thesis
    unfolding get_relocation_directory_def Let_def
    by (simp add: stalled_walk_never_returns)
qed

text \<open>
  Chained unwind info: the recursion follows one link per call. It returns when the
  chain ends.
\<close>

lemma resolve_chained_function_link:
  "resolve_chained_function p base_offset func =
     (case chain_link p func of
        None \<Rightarrow> Some func
      | Some chain_func \<Rightarrow> resolve_chained_function p base_offset chain_func)"
  by (subst resolve_chained_function.simps)
     (simp add: chain_link_def Let_def split: sum.splits)

lemma chain_ends_returns:
  "chain_ends p func \<Longrightarrow> \<exists>r. resolve_chained_function p base_offset func = Some r"
proof (induction rule: chain_ends.induct)
  case (last_link func)
  then show ?case
    by (subst resolve_chained_function_link) simp
next
  case (next_link func chain_func)
  then show ?case
    by (subst resolve_chained_function_link) simp
qed

lemma collect_walk_returns:
  "\<forall>i \<in> set is. \<exists>r. f i = Some r \<Longrightarrow> \<exists>r. collect_walk f is = Some r"
proof (induction "is")
  case Nil
  then show ?case by simp
next
  case (Cons i "is")
  then obtain r rs where "f i = Some r" "collect_walk f is = Some rs"
    by auto
  then show ?case
    by (cases r; cases rs) simp_all
qed

lemma returns_chain_ends:
  assumes "resolve_chained_function p base_offset func = Some r"
  shows "chain_ends p func"
proof (rule resolve_chained_function.raw_induct
    [where P = "\<lambda>p b f y. chain_ends p f", OF _ assms])
  fix resolve :: "Parser \<Rightarrow> nat \<Rightarrow> RuntimeFunction \<Rightarrow> RuntimeFunction option"
  fix p b f y
  assume IH: "\<And>p b f y. resolve p b f = Some y \<Longrightarrow> chain_ends p f"
  assume body: "(if unwind_info_address f = 0 then Some f
      else
        case rva_to_offset p (unwind_info_address f) of
          Inl e \<Rightarrow> Some f
        | Inr unwind_offset \<Rightarrow>
            (case read_UnwindInfo (buffer p) unwind_offset of
               Inl e \<Rightarrow> Some f
             | Inr unwind_info \<Rightarrow>
                 if flags unwind_info AND 0x4 \<noteq> 0 then
                   (let index = (ucast (count_of_codes unwind_info) :: u32);
                        index = (if index AND 1 \<noteq> 0 then index + 1 else index);
                        chain_offset = unwind_offset + offsetof_unwind_code +
                                       unat index * sizeof_UnwindCode
                    in case read_RuntimeFunction (buffer p) chain_offset of
                         Inl e \<Rightarrow> Some f
                       | Inr chain_func \<Rightarrow> resolve p b chain_func)
                 else Some f)) = Some y"
  show "chain_ends p f"
  proof (cases "chain_link p f")
    case None
    then show ?thesis by (rule last_link)
  next
    case (Some chain_func)
    with body have "resolve p b chain_func = Some y"
      by (auto simp: chain_link_def Let_def split: sum.splits if_splits)
    from Some IH[OF this] show ?thesis by (rule next_link)
  qed
qed

lemma get_exception_directory_returns:
  assumes "\<And>offset i func.
     rva_to_offset p (dir_virtual_address (data_directories (pe_info p) ! 3)) = Inr offset \<Longrightarrow>
     i < unat (dir_size (data_directories (pe_info p) ! 3) div
               word_of_nat sizeof_RuntimeFunction) \<Longrightarrow>
     read_RuntimeFunction (buffer p) (offset + i * sizeof_RuntimeFunction) = Inr func \<Longrightarrow>
     chain_ends p func"
  shows "\<exists>r. get_exception_directory p = Some r"
proof -
  let ?dir = "data_directories (pe_info p) ! 3"
  let ?n = "unat (dir_size ?dir div word_of_nat sizeof_RuntimeFunction)"
  have "\<exists>r. exception_entry p offset i = Some r"
    if "rva_to_offset p (dir_virtual_address ?dir) = Inr offset" and "i < ?n" for offset i
  proof (cases "read_RuntimeFunction (buffer p) (offset + i * sizeof_RuntimeFunction)")
    case (Inl e)
    then show ?thesis by (simp add: exception_entry_def)
  next
    case (Inr func)
    from chain_ends_returns[OF assms[OF that Inr]] obtain resolved where
      "resolve_chained_function p offset func = Some resolved"
      by blast
    with Inr show ?thesis
      by (simp add: exception_entry_def split: sum.splits)
  qed
  then have "\<exists>r. collect_walk (exception_entry p offset) [0..<?n] = Some r"
    if "rva_to_offset p (dir_virtual_address ?dir) = Inr offset" for offset
    using that by (intro collect_walk_returns) simp
  then show ?thesis
    unfolding get_exception_directory_def Let_def
    by (simp split: sum.splits)
qed

text \<open>The counted walks visit as many entries as the directory size announces.\<close>

lemma collect_walk_Inr_length:
  "collect_walk f is = Some (Inr xs) \<Longrightarrow> length xs = length is"
proof (induction "is" arbitrary: xs)
  case Nil
  then show ?case by simp
next
  case (Cons i "is")
  then show ?case
    by (auto split: option.splits sum.splits)
qed

lemma get_exception_directory_count:
  assumes "get_exception_directory p = Some (Inr rs)"
  shows "length rs \<le> unat (dir_size (data_directories (pe_info p) ! 3) div
                           word_of_nat sizeof_RuntimeFunction)"
  using assms unfolding get_exception_directory_def Let_def
  by (auto split: if_splits sum.splits dest: collect_walk_Inr_length)

lemma get_debug_directory_count:
  assumes "get_debug_directory p = Inr ds"
  shows "length ds \<le> unat (dir_size (data_directories (pe_info p) ! 6) div
                           word_of_nat sizeof_DebugDirectory)"
  using assms unfolding get_debug_directory_def Let_def
  by (auto split: if_splits sum.splits dest: collect_upt_Inr)

text \<open>
  A function that is its own chained function is never resolved: every call of
  \<^verbatim>\<open>resolve_chained_function\<close> on it makes the same call again.
\<close>

lemma self_chained_never_resolved:
  assumes "chain_link p func = Some func"
  shows "resolve_chained_function p base_offset func = None"
proof (rule ccontr)
  assume "resolve_chained_function p base_offset func \<noteq> None"
  then obtain r where r: "resolve_chained_function p base_offset func = Some r"
    by blast
  have "chain_link p func \<noteq> Some func"
  proof (rule resolve_chained_function.raw_induct
      [where P = "\<lambda>p b f y. chain_link p f \<noteq> Some f", OF _ r])
    fix resolve :: "Parser \<Rightarrow> nat \<Rightarrow> RuntimeFunction \<Rightarrow> RuntimeFunction option"
    fix p b f y
    assume IH: "\<And>p b f y. resolve p b f = Some y \<Longrightarrow> chain_link p f \<noteq> Some f"
    assume body: "(if unwind_info_address f = 0 then Some f
      else
        case rva_to_offset p (unwind_info_address f) of
          Inl e \<Rightarrow> Some f
        | Inr unwind_offset \<Rightarrow>
            (case read_UnwindInfo (buffer p) unwind_offset of
               Inl e \<Rightarrow> Some f
             | Inr unwind_info \<Rightarrow>
                 if flags unwind_info AND 0x4 \<noteq> 0 then
                   (let index = (ucast (count_of_codes unwind_info) :: u32);
                        index = (if index AND 1 \<noteq> 0 then index + 1 else index);
                        chain_offset = unwind_offset + offsetof_unwind_code +
                                       unat index * sizeof_UnwindCode
                    in case read_RuntimeFunction (buffer p) chain_offset of
                         Inl e \<Rightarrow> Some f
                       | Inr chain_func \<Rightarrow> resolve p b chain_func)
                 else Some f)) = Some y"
    show "chain_link p f \<noteq> Some f"
    proof
      assume self: "chain_link p f = Some f"
      with body have "resolve p b f = Some y"
        by (auto simp: chain_link_def Let_def split: sum.splits if_splits)
      from IH[OF this] self show False by simp
    qed
  qed
  with assms show False by simp
qed

lemmas exception_eval =
  read_RuntimeFunction_def dec_RuntimeFunction_def sizeof_RuntimeFunction_def
  read_UnwindInfo_def dec_UnwindInfo_def sizeof_UnwindInfo_def offsetof_unwind_code_def
  sizeof_UnwindCode_def rva_to_offset_def is_rva_in_section_def exception_dirs_bytes_def

lemma cyclic_chain_link: "chain_link cyclic_parser cyclic_function = Some cyclic_function"
  by (simp add: chain_link_def exception_eval scalar_eval image_eval cyclic_parser_def
      cyclic_image_def cyclic_function_def)

lemma cyclic_directory_located:
  "dir_virtual_address (data_directories (pe_info cyclic_parser) ! 3) = 0x1000"
  "dir_size (data_directories (pe_info cyclic_parser) ! 3) = 0x0C"
  "rva_to_offset cyclic_parser 0x1000 = Inr 368"
  "read_RuntimeFunction (buffer cyclic_parser) 368 = Inr cyclic_function"
  by (simp_all add: exception_eval scalar_eval image_eval cyclic_parser_def cyclic_image_def
      cyclic_function_def)

text \<open>
  C2 as stated: every directory accessor terminates on every input buffer. This fails
  for the exception directory: in the image whose only \<^verbatim>\<open>RuntimeFunction\<close> has unwind
  info with \<^verbatim>\<open>UNW_FLAG_CHAININFO\<close> and a chained function naming the same unwind info,
  \<^verbatim>\<open>resolve_chained_function\<close> does not return, and neither does
  \<^verbatim>\<open>get_exception_directory\<close>.
\<close>

theorem cyclic_chain_never_returns:
  "new_Parser cyclic_image = Inr cyclic_parser \<and>
   read_RuntimeFunction (buffer cyclic_parser) 368 = Inr cyclic_function \<and>
   chain_link cyclic_parser cyclic_function = Some cyclic_function \<and>
   resolve_chained_function cyclic_parser 368 cyclic_function = None \<and>
   get_exception_directory cyclic_parser = None"
proof -
  have res: "resolve_chained_function cyclic_parser 368 cyclic_function = None"
    by (rule self_chained_never_resolved[OF cyclic_chain_link])
  have "exception_entry cyclic_parser 368 0 = None"
    using cyclic_directory_located(4) res
    by (simp add: exception_entry_def sizeof_RuntimeFunction_def)
  then have "get_exception_directory cyclic_parser = None"
    unfolding get_exception_directory_def Let_def
    by (simp add: cyclic_directory_located sizeof_RuntimeFunction_def)
  with cyclic_parsed cyclic_directory_located(4) cyclic_chain_link res show ?thesis
    by simp
qed

text \<open>The image with a chain of one link that ends.\<close>

lemma chained_directory_located:
  "dir_virtual_address (data_directories (pe_info chained_parser) ! 3) = 0x1000"
  "dir_size (data_directories (pe_info chained_parser) ! 3) = 0x0C"
  "rva_to_offset chained_parser 0x1000 = Inr 368"
  "read_RuntimeFunction (buffer chained_parser) 368 =
     Inr \<lparr> begin_address = 0x1100, end_address = 0x1200, unwind_info_address = 0x1010 \<rparr>"
  "length (buffer chained_parser) = 412"
  by (simp_all add: exception_eval scalar_eval image_eval chained_parser_def
      chained_image_def)

lemma chained_links:
  "chain_link chained_parser
     \<lparr> begin_address = 0x1100, end_address = 0x1200, unwind_info_address = 0x1010 \<rparr> =
   Some \<lparr> begin_address = 0x1000, end_address = 0x1100, unwind_info_address = 0x1024 \<rparr>"
  "chain_link chained_parser
     \<lparr> begin_address = 0x1000, end_address = 0x1100, unwind_info_address = 0x1024 \<rparr> = None"
  by (simp_all add: chain_link_def exception_eval scalar_eval image_eval chained_parser_def
      chained_image_def)

text \<open>
  C2, amended: the import walk and the TLS callback walk return on every input buffer,
  and the relocation walk on every buffer shorter than \<open>2 ^ 32\<close> bytes; the debug walk
  and the exception walk visit at most \<open>directory.size / sizeof(entry)\<close> entries.
  Chained-unwind resolution has no bound of its own: it returns exactly when the chain
  of \<^verbatim>\<open>UNW_FLAG_CHAININFO\<close> links ends (at a function without unwind info, without the
  flag, or whose unwind info or chained function cannot be read), and
  \<^verbatim>\<open>get_exception_directory\<close> returns when the chain of every entry ends.
\<close>

theorem bounded_walks_return:
  "(\<exists>r. get_import_directory p = Some r) \<and>
   (\<exists>r. get_tls_directory p = Some r) \<and>
   (length (buffer p) < 2 ^ 32 \<longrightarrow> (\<exists>r. get_relocation_directory p = Some r)) \<and>
   (\<forall>ds. get_debug_directory p = Inr ds \<longrightarrow>
      length ds \<le> unat (dir_size (data_directories (pe_info p) ! 6) div
                        word_of_nat sizeof_DebugDirectory)) \<and>
   (\<forall>rs. get_exception_directory p = Some (Inr rs) \<longrightarrow>
      length rs \<le> unat (dir_size (data_directories (pe_info p) ! 3) div
                        word_of_nat sizeof_RuntimeFunction)) \<and>
   (\<forall>base_offset func.
      (\<exists>r. resolve_chained_function p base_offset func = Some r) \<longleftrightarrow> chain_ends p func) \<and>
   ((\<forall>offset i func.
       rva_to_offset p (dir_virtual_address (data_directories (pe_info p) ! 3)) = Inr offset \<and>
       i < unat (dir_size (data_directories (pe_info p) ! 3) div
                 word_of_nat sizeof_RuntimeFunction) \<and>
       read_RuntimeFunction (buffer p) (offset + i * sizeof_RuntimeFunction) = Inr func \<longrightarrow>
       chain_ends p func) \<longrightarrow>
    (\<exists>r. get_exception_directory p = Some r))"
proof (intro conjI allI impI)
  show "\<exists>r. get_import_directory p = Some r" by (rule get_import_directory_returns)
  show "\<exists>r. get_tls_directory p = Some r" by (rule get_tls_directory_returns)
next
  assume "length (buffer p) < 2 ^ 32"
  then show "\<exists>r. get_relocation_directory p = Some r"
    by (rule get_relocation_directory_returns)
next
  fix ds assume "get_debug_directory p = Inr ds"
  then show "length ds \<le> unat (dir_size (data_directories (pe_info p) ! 6) div
                        word_of_nat sizeof_DebugDirectory)"
    by (rule get_debug_directory_count)
next
  fix rs assume "get_exception_directory p = Some (Inr rs)"
  then show "length rs \<le> unat (dir_size (data_directories (pe_info p) ! 3) div
                        word_of_nat sizeof_RuntimeFunction)"
    by (rule get_exception_directory_count)
next
  fix base_offset func
  show "(\<exists>r. resolve_chained_function p base_offset func = Some r) \<longleftrightarrow> chain_ends p func"
    using returns_chain_ends chain_ends_returns by blast
next
  assume "\<forall>offset i func.
       rva_to_offset p (dir_virtual_address (data_directories (pe_info p) ! 3)) = Inr offset \<and>
       i < unat (dir_size (data_directories (pe_info p) ! 3) div
                 word_of_nat sizeof_RuntimeFunction) \<and>
       read_RuntimeFunction (buffer p) (offset + i * sizeof_RuntimeFunction) = Inr func \<longrightarrow>
       chain_ends p func"
  then show "\<exists>r. get_exception_directory p = Some r"
    by (intro get_exception_directory_returns) blast
qed

theorem bounded_walks_return_witness:
  "length (buffer chained_parser) < 2 ^ 32 \<and>
   (\<exists>r. get_relocation_directory chained_parser = Some r) \<and>
   chain_ends chained_parser
     \<lparr> begin_address = 0x1100, end_address = 0x1200, unwind_info_address = 0x1010 \<rparr> \<and>
   (\<exists>r. resolve_chained_function chained_parser 368
           \<lparr> begin_address = 0x1100, end_address = 0x1200,
             unwind_info_address = 0x1010 \<rparr> = Some r) \<and>
   (\<exists>r. get_exception_directory chained_parser = Some r)"
proof -
  let ?first = "\<lparr> begin_address = 0x1100, end_address = 0x1200,
      unwind_info_address = 0x1010 \<rparr>"
  note t = bounded_walks_return[of chained_parser]
  have len: "length (buffer chained_parser) < 2 ^ 32"
    by (simp add: chained_directory_located)
  with t have reloc: "\<exists>r. get_relocation_directory chained_parser = Some r"
    by blast
  have ends: "chain_ends chained_parser ?first"
    by (rule next_link[OF chained_links(1) last_link[OF chained_links(2)]])
  with t have res: "\<exists>r. resolve_chained_function chained_parser 368 ?first = Some r"
    by blast
  have "\<forall>offset i func.
       rva_to_offset chained_parser
         (dir_virtual_address (data_directories (pe_info chained_parser) ! 3)) = Inr offset \<and>
       i < unat (dir_size (data_directories (pe_info chained_parser) ! 3) div
                 word_of_nat sizeof_RuntimeFunction) \<and>
       read_RuntimeFunction (buffer chained_parser) (offset + i * sizeof_RuntimeFunction) =
         Inr func \<longrightarrow>
       chain_ends chained_parser func"
  proof (intro allI impI, elim conjE)
    fix offset i func
    assume "rva_to_offset chained_parser
         (dir_virtual_address (data_directories (pe_info chained_parser) ! 3)) = Inr offset"
    then have off: "offset = 368" by (simp add: chained_directory_located)
    assume "i < unat (dir_size (data_directories (pe_info chained_parser) ! 3) div
                 word_of_nat sizeof_RuntimeFunction)"
    then have i: "i = 0"
      by (simp add: chained_directory_located sizeof_RuntimeFunction_def)
    assume "read_RuntimeFunction (buffer chained_parser)
        (offset + i * sizeof_RuntimeFunction) = Inr func"
    with off i have "func = ?first" by (simp add: chained_directory_located)
    with ends show "chain_ends chained_parser func" by simp
  qed
  with t have "\<exists>r. get_exception_directory chained_parser = Some r"
    by blast
  with len reloc ends res show ?thesis by (intro conjI)
qed

subsection \<open>Unchecked copies\<close>

text \<open>
  C9 fails on the code: the copies of raw regions check nothing. In the file that ends
  after its section table (368 bytes) while the section header announces the raw region
  \<open>[368, 444)\<close>, each of the three section views copies from beyond the end of the
  buffer; so does \<^verbatim>\<open>get_debug_directory\<close> in the file that ends before the payload
  \<open>[424, 461)\<close> of its CodeView entry. \<^verbatim>\<open>read_struct\<close> at the same offsets refuses.
\<close>

theorem raw_copies_read_past_end:
  "new_Parser truncated_image = Inr truncated_parser \<and>
   length (buffer truncated_parser) = 368 \<and>
   section_headers (pe_info truncated_parser) = [text_section 0x4C] \<and>
   unat (pointer_to_raw_data (text_section 0x4C)) +
     unat (size_of_raw_data (text_section 0x4C)) = 444 \<and>
   get_section_data truncated_parser ''.text'' = Inl ReadPastEnd \<and>
   get_text_section_data truncated_parser = Inl ReadPastEnd \<and>
   get_all_sections_data truncated_parser = Inl ReadPastEnd \<and>
   get_executable_sections_data truncated_parser = Inl ReadPastEnd \<and>
   new_Parser debug_cut_image = Inr debug_cut_parser \<and>
   length (buffer debug_cut_parser) = 424 \<and>
   get_debug_directory debug_cut_parser = Inl ReadPastEnd \<and>
   read_u64 (buffer truncated_parser) 368 = Inl BufferOverflow"
proof -
  have len: "length (buffer truncated_parser) = 368"
    by (simp add: truncated_parser_def truncated_image_def image_eval)
  have secs: "section_headers (pe_info truncated_parser) = [text_section 0x4C]"
    by (simp add: truncated_parser_def parser_of_def)
  have region: "unat (pointer_to_raw_data (text_section 0x4C)) +
     unat (size_of_raw_data (text_section 0x4C)) = 444"
    by (simp add: text_section_def)
  have nm: "string_of (name (text_section 0x4C)) = ''.text'' @ [CHR 0x00, CHR 0x00, CHR 0x00]"
    by (simp add: text_section_def string_eval)
  have ex: "characteristics (text_section 0x4C) AND scn_mem_execute \<noteq> 0"
    by (simp add: text_section_def scn_mem_execute_def)
  have copy: "copy_range (buffer truncated_parser)
      (unat (pointer_to_raw_data (text_section 0x4C)))
      (unat (pointer_to_raw_data (text_section 0x4C)) +
       unat (size_of_raw_data (text_section 0x4C))) = Inl ReadPastEnd"
    by (simp add: copy_range_def len text_section_def)
  have 1: "get_section_data truncated_parser ''.text'' = Inl ReadPastEnd"
    using copy by (simp add: get_section_data_def secs nm)
  have 2: "get_all_sections_data truncated_parser = Inl ReadPastEnd"
    using copy by (simp add: get_all_sections_data_def section_view_def secs Let_def)
  have 3: "get_executable_sections_data truncated_parser = Inl ReadPastEnd"
    using copy ex
    by (simp add: get_executable_sections_data_def section_view_def secs Let_def)
  have dlen: "length (buffer debug_cut_parser) = 424"
    by (simp add: debug_cut_parser_def debug_cut_image_def image_eval debug_eval)
  have dloc: "dir_virtual_address (data_directories (pe_info debug_cut_parser) ! 6) = 0x1000"
    "dir_size (data_directories (pe_info debug_cut_parser) ! 6) = 0x38"
    "rva_to_offset debug_cut_parser 0x1000 = Inr 368"
    by (simp_all add: debug_cut_parser_def image_eval rva_to_offset_def
        is_rva_in_section_def)
  have dread:
    "read_DebugDirectory (buffer debug_cut_parser) 368 = Inr (fst (debug_result ! 0))"
    "read_DebugDirectory (buffer debug_cut_parser) 396 = Inr (fst (debug_result ! 1))"
    by (simp_all add: debug_eval scalar_eval image_eval debug_cut_parser_def
        debug_cut_image_def debug_result_def)
  have d0: "debug_entry debug_cut_parser 368 0 = Inr (debug_result ! 0)"
    using dread(1) by (simp add: debug_entry_def sizeof_DebugDirectory_def debug_result_def)
  have d1: "debug_entry debug_cut_parser 368 1 = Inl ReadPastEnd"
    using dread(2)
    by (simp add: debug_entry_def sizeof_DebugDirectory_def debug_result_def
        copy_range_def dlen)
  have 4: "get_debug_directory debug_cut_parser = Inl ReadPastEnd"
    unfolding get_debug_directory_def Let_def
    using d0 d1 by (simp add: dloc sizeof_DebugDirectory_def upt_2)
  have 5: "read_u64 (buffer truncated_parser) 368 = Inl BufferOverflow"
    by (simp add: read_u64_Inl len)
  from truncated_parsed debug_cut_parsed len secs region 1 2 3 dlen 4 5 show ?thesis
    by (simp add: get_text_section_data_def)
qed

end
